theory Spec2Isabelle
  imports Main
begin

section \<open>Checkout views of the online store\<close>

text \<open>
  The development embeds \<^verbatim>\<open>products/models.py\<close> and the two checkout views of
  \<^verbatim>\<open>products/views.py\<close> (\<^verbatim>\<open>buy_view\<close>, \<^verbatim>\<open>buy_order_view\<close>).
  The database is an explicit store of rows keyed by primary key, the payment gateway is a
  parameter that answers every call with an exception message or the \<^verbatim>\<open>id\<close> of the
  object it returns, and every gateway call is recorded in a log together with its answer.
  A view returns its outcome (a raised exception or an HTTP response) and the world it
  leaves behind, also when it raises: saves are committed one by one.
\<close>

subsection \<open>Python values sent to and returned by the views\<close>

text \<open>
  Keyword arguments, dict literals and JSON bodies are association lists in the order the
  source writes their keys.
\<close>

datatype pyval =
    PNone
  | PBool bool
  | PInt int
  | PStr string
  | PList "pyval list"
  | PDict "(string \<times> pyval) list"

type_synonym kwargs = "(string \<times> pyval) list"

fun pyget :: "pyval \<Rightarrow> string \<Rightarrow> pyval option" where
  "pyget (PDict kvs) k = map_of kvs k"
| "pyget _ k = None"

definition py_opt_int :: "nat option \<Rightarrow> pyval" where
  "py_opt_int n = (case n of None \<Rightarrow> PNone | Some v \<Rightarrow> PInt (int v))"

text \<open>Truth value of a nullable \<^verbatim>\<open>CharField\<close> and of a nullable
  \<^verbatim>\<open>PositiveIntegerField\<close>: \<^verbatim>\<open>None\<close>, the empty string and zero are false.\<close>

definition truthy_str :: "string option \<Rightarrow> bool" where
  "truthy_str s = (case s of None \<Rightarrow> False | Some v \<Rightarrow> v \<noteq> [])"

definition truthy_nat :: "nat option \<Rightarrow> bool" where
  "truthy_nat n = (case n of None \<Rightarrow> False | Some v \<Rightarrow> v \<noteq> 0)"

text \<open>The decimal numeral that an f-string prints for a primary key.\<close>

definition digit_char :: "nat \<Rightarrow> char" where
  "digit_char d = char_of (48 + d)"

function str_nat :: "nat \<Rightarrow> string" where
  "str_nat n = (if n < 10 then [digit_char n] else str_nat (n div 10) @ [digit_char (n mod 10)])"
  by pat_completeness auto
termination
  by (relation "measure id") auto

declare str_nat.simps [simp del]

subsection \<open>models.py\<close>

record Item =
  item_name :: string
  description :: string
  price :: nat
  currency :: string

record Discount =
  discount_name :: string
  amount_off :: "nat option"
  percent_off :: "nat option"
  stripe_coupon_id :: "string option"

record Tax =
  tax_name :: string
  percentage :: nat
  inclusive :: bool
  stripe_tax_rate_id :: "string option"

text \<open>
  \<open>items\<close> holds the rows of the many-to-many relation as item primary keys, in the order
  the database returns them; \<open>discount_id\<close> and \<open>tax_id\<close> are the nullable foreign keys.
  Reading \<^verbatim>\<open>order.discount\<close> or \<^verbatim>\<open>order.tax\<close> through a key without a row
  raises \<^verbatim>\<open>DoesNotExist\<close>; the foreign-key constraints of the database exclude such keys,
  and the model keeps the branch.
\<close>

record Order =
  items :: "nat list"
  discount_id :: "nat option"
  tax_id :: "nat option"
  paid :: bool

record database =
  item_rows :: "nat \<rightharpoonup> Item"
  discount_rows :: "nat \<rightharpoonup> Discount"
  tax_rows :: "nat \<rightharpoonup> Tax"
  order_rows :: "nat \<rightharpoonup> Order"

text \<open>\<^verbatim>\<open>order.items.all()\<close>: the join of the relation with the item table.\<close>

definition items_all :: "database \<Rightarrow> Order \<Rightarrow> (nat \<times> Item) list" where
  "items_all d order =
     List.map_filter (\<lambda>i. map_option (Pair i) (item_rows d i)) (items order)"

text \<open>\<^verbatim>\<open>order.items.first()\<close>: an unordered queryset is ordered by primary key;
  the result is \<^verbatim>\<open>None\<close> when there is no row.\<close>

definition items_first :: "database \<Rightarrow> Order \<Rightarrow> (nat \<times> Item) option" where
  "items_first d order =
     (case sort_key fst (items_all d order) of [] \<Rightarrow> None | x # _ \<Rightarrow> Some x)"

subsection \<open>The gateway and the world\<close>

datatype api_call =
    Coupon_create kwargs
  | TaxRate_create kwargs
  | Session_create kwargs

text \<open>An answer is \<open>Inl\<close> the string of the exception raised, or \<open>Inr\<close> the
  \<^verbatim>\<open>id\<close> of the returned object.\<close>

type_synonym api_result = "string + string"

type_synonym api_log = "(api_call \<times> api_result) list"

type_synonym stripe = "api_log \<Rightarrow> api_call \<Rightarrow> api_result"

record world =
  db :: database
  log :: api_log

definition stripe_call :: "stripe \<Rightarrow> api_call \<Rightarrow> world \<Rightarrow> api_result \<times> world" where
  "stripe_call gw c w = (let r = gw (log w) c in (r, w\<lparr>log := log w @ [(c, r)]\<rparr>))"

datatype exn =
    Http404
  | DoesNotExist
  | AttributeError
  | StripeRaised string

datatype http_response =
    JsonResponse pyval
  | HttpResponseBadRequest string

fun status_code :: "http_response \<Rightarrow> nat" where
  "status_code (JsonResponse _) = 200"
| "status_code (HttpResponseBadRequest _) = 400"

type_synonym outcome = "exn + http_response"

subsection \<open>buy\_view\<close>

text \<open>\<open>root_uri\<close> is \<^verbatim>\<open>request.build_absolute_uri("/")\<close>.\<close>

definition success_url_of :: "string \<Rightarrow> string" where
  "success_url_of root_uri = butlast root_uri @ ''/success?session_id={CHECKOUT_SESSION_ID}''"

definition buy_line_item :: "Item \<Rightarrow> pyval" where
  "buy_line_item item =
     PDict [
       (''price_data'', PDict [
          (''currency'', PStr (currency item)),
          (''product_data'', PDict [
             (''name'', PStr (item_name item)),
             (''description'', PStr (take 200 (description item)))]),
          (''unit_amount'', PInt (int (price item * 100)))]),
       (''quantity'', PInt 1)]"

definition session_kwargs :: "pyval list \<Rightarrow> string \<Rightarrow> string \<Rightarrow> kwargs" where
  "session_kwargs line_items success_url cancel_url =
     [(''payment_method_types'', PList [PStr ''card'']),
      (''line_items'', PList line_items),
      (''mode'', PStr ''payment''),
      (''success_url'', PStr success_url),
      (''cancel_url'', PStr cancel_url)]"

definition create_session :: "stripe \<Rightarrow> kwargs \<Rightarrow> world \<Rightarrow> outcome \<times> world" where
  "create_session gw kw w =
     (case stripe_call gw (Session_create kw) w of
        (Inl e, w') \<Rightarrow> (Inr (HttpResponseBadRequest (''Stripe error: '' @ e)), w')
      | (Inr sid, w') \<Rightarrow> (Inr (JsonResponse (PDict [(''session_id'', PStr sid)])), w'))"

definition buy_view :: "stripe \<Rightarrow> string \<Rightarrow> nat \<Rightarrow> world \<Rightarrow> outcome \<times> world" where
  "buy_view gw root_uri item_id w =
     (case item_rows (db w) item_id of
        None \<Rightarrow> (Inl Http404, w)
      | Some item \<Rightarrow>
          (let origin = butlast root_uri;
               success_url = success_url_of root_uri;
               cancel_url = origin @ ''/item/'' @ str_nat item_id @ ''/''
           in create_session gw (session_kwargs [buy_line_item item] success_url cancel_url) w))"

subsection \<open>buy\_order\_view\<close>

text \<open>The discount check (lines 128 to 146): a coupon is created only for a discount
  whose \<^verbatim>\<open>stripe_coupon_id\<close> is false, and the returned id is saved at once.\<close>

definition coupon_kwargs :: "database \<Rightarrow> Order \<Rightarrow> Discount \<Rightarrow> exn + kwargs" where
  "coupon_kwargs d order discount =
     (if truthy_nat (amount_off discount) then
        (case items_first d order of
           None \<Rightarrow> Inl AttributeError
         | Some (_, first) \<Rightarrow>
             Inr [(''duration'', PStr ''once''),
                  (''amount_off'', py_opt_int (amount_off discount)),
                  (''currency'', PStr (currency first))])
      else
        Inr [(''duration'', PStr ''once''),
             (''percent_off'', py_opt_int (percent_off discount))])"

definition save_discount :: "nat \<Rightarrow> Discount \<Rightarrow> world \<Rightarrow> world" where
  "save_discount k discount w =
     w\<lparr>db := (db w)\<lparr>discount_rows := (discount_rows (db w))(k \<mapsto> discount)\<rparr>\<rparr>"

definition save_tax :: "nat \<Rightarrow> Tax \<Rightarrow> world \<Rightarrow> world" where
  "save_tax k tax w =
     w\<lparr>db := (db w)\<lparr>tax_rows := (tax_rows (db w))(k \<mapsto> tax)\<rparr>\<rparr>"

definition check_discount :: "stripe \<Rightarrow> Order \<Rightarrow> world \<Rightarrow> (exn + unit) \<times> world" where
  "check_discount gw order w =
     (case discount_id order of
        None \<Rightarrow> (Inr (), w)
      | Some k \<Rightarrow>
          (case discount_rows (db w) k of
             None \<Rightarrow> (Inl DoesNotExist, w)
           | Some discount \<Rightarrow>
               if \<not> truthy_str (stripe_coupon_id discount) then
                 (case coupon_kwargs (db w) order discount of
                    Inl e \<Rightarrow> (Inl e, w)
                  | Inr kw \<Rightarrow>
                      (case stripe_call gw (Coupon_create kw) w of
                         (Inl e, w') \<Rightarrow> (Inl (StripeRaised e), w')
                       | (Inr coupon_id, w') \<Rightarrow>
                           (Inr (),
                            save_discount k (discount\<lparr>stripe_coupon_id := Some coupon_id\<rparr>) w')))
               else (Inr (), w)))"

text \<open>The tax check (lines 148 to 160). The result carries the in-memory
  \<^verbatim>\<open>order.tax\<close> instance, which the loop over the items reads.\<close>

definition tax_kwargs :: "Tax \<Rightarrow> kwargs" where
  "tax_kwargs tax =
     [(''display_name'', PStr (tax_name tax)),
      (''percentage'', PInt (int (percentage tax))),
      (''inclusive'', PBool (inclusive tax))]"

definition check_tax :: "stripe \<Rightarrow> Order \<Rightarrow> world \<Rightarrow> (exn + Tax option) \<times> world" where
  "check_tax gw order w =
     (case tax_id order of
        None \<Rightarrow> (Inr None, w)
      | Some k \<Rightarrow>
          (case tax_rows (db w) k of
             None \<Rightarrow> (Inl DoesNotExist, w)
           | Some tax \<Rightarrow>
               if \<not> truthy_str (stripe_tax_rate_id tax) then
                 (case stripe_call gw (TaxRate_create (tax_kwargs tax)) w of
                    (Inl e, w') \<Rightarrow> (Inl (StripeRaised e), w')
                  | (Inr tax_rate_id, w') \<Rightarrow>
                      (let tax' = tax\<lparr>stripe_tax_rate_id := Some tax_rate_id\<rparr>
                       in (Inr (Some tax'), save_tax k tax' w')))
               else (Inr (Some tax), w)))"

text \<open>One \<^verbatim>\<open>item_data\<close> dict of the loop (lines 164 to 179).\<close>

definition item_data :: "Tax option \<Rightarrow> Item \<Rightarrow> pyval" where
  "item_data order_tax item =
     PDict ([
       (''price_data'', PDict [
          (''currency'', PStr (currency item)),
          (''product_data'', PDict [
             (''name'', PStr (item_name item)),
             (''description'', PStr (description item))]),
          (''unit_amount'', PInt (int (price item * 100)))]),
       (''quantity'', PInt 1)]
      @ (case order_tax of
           None \<Rightarrow> []
         | Some tax \<Rightarrow>
             (case stripe_tax_rate_id tax of
                None \<Rightarrow> []
              | Some tid \<Rightarrow> if tid \<noteq> [] then [(''tax_rates'', PList [PStr tid])] else [])))"

definition line_items_of :: "database \<Rightarrow> Order \<Rightarrow> Tax option \<Rightarrow> pyval list" where
  "line_items_of d order order_tax = map (\<lambda>(_, item). item_data order_tax item) (items_all d order)"

definition buy_order_view :: "stripe \<Rightarrow> string \<Rightarrow> nat \<Rightarrow> world \<Rightarrow> outcome \<times> world" where
  "buy_order_view gw root_uri order_id w =
     (case order_rows (db w) order_id of
        None \<Rightarrow> (Inl Http404, w)
      | Some order \<Rightarrow>
          (let origin = butlast root_uri;
               success_url = success_url_of root_uri;
               cancel_url = origin @ ''/order/'' @ str_nat order_id @ ''/''
           in case check_discount gw order w of
                (Inl e, w1) \<Rightarrow> (Inl e, w1)
              | (Inr _, w1) \<Rightarrow>
                  (case check_tax gw order w1 of
                     (Inl e, w2) \<Rightarrow> (Inl e, w2)
                   | (Inr order_tax, w2) \<Rightarrow>
                       create_session gw
                         (session_kwargs (line_items_of (db w2) order order_tax)
                            success_url cancel_url) w2)))"

subsection \<open>Reading the log of a run\<close>

definition new_calls :: "world \<Rightarrow> world \<Rightarrow> api_log" where
  "new_calls w w' = drop (length (log w)) (log w')"

fun is_coupon_call :: "api_call \<times> api_result \<Rightarrow> bool" where
  "is_coupon_call (Coupon_create _, _) = True"
| "is_coupon_call _ = False"

fun is_tax_call :: "api_call \<times> api_result \<Rightarrow> bool" where
  "is_tax_call (TaxRate_create _, _) = True"
| "is_tax_call _ = False"

fun is_session_call :: "api_call \<times> api_result \<Rightarrow> bool" where
  "is_session_call (Session_create _, _) = True"
| "is_session_call _ = False"

text \<open>Nested lookup in a dict literal.\<close>

fun pypath :: "pyval \<Rightarrow> string list \<Rightarrow> pyval option" where
  "pypath v [] = Some v"
| "pypath v (k # ks) = (case pyget v k of None \<Rightarrow> None | Some v' \<Rightarrow> pypath v' ks)"

subsection \<open>Sample data\<close>

text \<open>A small shop used to run the views on concrete input: two items, an order with an
  unmaterialized percent discount and tax (shared by a second order), an empty order with an
  amount discount, an order whose discount and tax are materialized, and gateways that answer
  or raise.\<close>

definition gw_ok :: stripe where
  "gw_ok lg c =
     (case c of
        Coupon_create _ \<Rightarrow> Inr ''co_1''
      | TaxRate_create _ \<Rightarrow> Inr ''txr_1''
      | Session_create _ \<Rightarrow> Inr ''cs_test_1'')"

definition gw_down :: stripe where
  "gw_down lg c = Inl ''connection refused''"

definition gw_tax_fails :: stripe where
  "gw_tax_fails lg c =
     (case c of
        Coupon_create _ \<Rightarrow> Inr ''co_1''
      | TaxRate_create _ \<Rightarrow> Inl ''invalid percentage''
      | Session_create _ \<Rightarrow> Inr ''cs_test_1'')"

definition gw_session_fails :: stripe where
  "gw_session_fails lg c =
     (case c of
        Coupon_create _ \<Rightarrow> Inr ''co_1''
      | TaxRate_create _ \<Rightarrow> Inr ''txr_1''
      | Session_create _ \<Rightarrow> Inl ''card declined'')"

text \<open>A gateway whose first coupon creation raises and whose later ones return, and a
  gateway that returns coupons with an empty id.\<close>

definition gw_coupon_retry :: stripe where
  "gw_coupon_retry lg c =
     (case c of
        Coupon_create _ \<Rightarrow>
          if filter is_coupon_call lg = [] then Inl ''connection reset'' else Inr ''co_1''
      | TaxRate_create _ \<Rightarrow> Inr ''txr_1''
      | Session_create _ \<Rightarrow> Inr ''cs_test_1'')"

definition gw_empty_coupon_id :: stripe where
  "gw_empty_coupon_id lg c =
     (case c of
        Coupon_create _ \<Rightarrow> Inr []
      | TaxRate_create _ \<Rightarrow> Inr ''txr_1''
      | Session_create _ \<Rightarrow> Inr ''cs_test_1'')"

definition mug :: Item where
  "mug = \<lparr>item_name = ''Mug'', description = ''A mug'', price = 10, currency = ''USD''\<rparr>"

definition pen :: Item where
  "pen = \<lparr>item_name = ''Pen'', description = ''A pen'', price = 3, currency = ''EUR''\<rparr>"

definition ten_percent :: Discount where
  "ten_percent = \<lparr>discount_name = ''TEN'', amount_off = None, percent_off = Some 10,
                  stripe_coupon_id = None\<rparr>"

definition five_off :: Discount where
  "five_off = \<lparr>discount_name = ''FIVE'', amount_off = Some 5, percent_off = None,
               stripe_coupon_id = None\<rparr>"

definition promo :: Discount where
  "promo = \<lparr>discount_name = ''PROMO'', amount_off = None, percent_off = Some 25,
            stripe_coupon_id = Some ''co_old''\<rparr>"

definition vat :: Tax where
  "vat = \<lparr>tax_name = ''VAT'', percentage = 20, inclusive = False, stripe_tax_rate_id = None\<rparr>"

definition gst :: Tax where
  "gst = \<lparr>tax_name = ''GST'', percentage = 5, inclusive = True,
          stripe_tax_rate_id = Some ''txr_old''\<rparr>"

definition order1 :: Order where
  "order1 = \<lparr>items = [2, 1], discount_id = Some 1, tax_id = Some 1, paid = False\<rparr>"

definition order2 :: Order where
  "order2 = \<lparr>items = [2], discount_id = Some 1, tax_id = Some 1, paid = False\<rparr>"

definition order3 :: Order where
  "order3 = \<lparr>items = [], discount_id = Some 2, tax_id = None, paid = False\<rparr>"

definition order4 :: Order where
  "order4 = \<lparr>items = [1, 2, 1], discount_id = Some 3, tax_id = Some 2, paid = False\<rparr>"

definition order5 :: Order where
  "order5 = \<lparr>items = [2, 1], discount_id = Some 2, tax_id = None, paid = False\<rparr>"

text \<open>An empty order with the percent discount.\<close>

definition order6 :: Order where
  "order6 = \<lparr>items = [], discount_id = Some 1, tax_id = None, paid = False\<rparr>"

definition shop_db :: database where
  "shop_db =
     \<lparr>item_rows = [1 \<mapsto> mug, 2 \<mapsto> pen],
      discount_rows = [1 \<mapsto> ten_percent, 2 \<mapsto> five_off, 3 \<mapsto> promo],
      tax_rows = [1 \<mapsto> vat, 2 \<mapsto> gst],
      order_rows =
        [1 \<mapsto> order1, 2 \<mapsto> order2, 3 \<mapsto> order3, 4 \<mapsto> order4, 5 \<mapsto> order5,
         6 \<mapsto> order6]\<rparr>"

definition shop :: world where
  "shop = \<lparr>db = shop_db, log = []\<rparr>"

definition shop_url :: string where
  "shop_url = ''http://shop.test/''"

text \<open>The session request that the checkout of order 4 sends.\<close>

definition order4_request :: kwargs where
  "order4_request =
     session_kwargs (line_items_of shop_db order4 (Some gst)) (success_url_of shop_url)
       (butlast shop_url @ ''/order/'' @ str_nat 4 @ ''/'')"

lemmas shop_defs = shop_def shop_db_def shop_url_def order1_def order2_def order3_def order4_def
  order5_def order6_def mug_def pen_def ten_percent_def five_off_def
  promo_def vat_def gst_def

lemmas view_defs = buy_order_view_def buy_view_def check_discount_def check_tax_def
  create_session_def stripe_call_def coupon_kwargs_def items_first_def items_all_def
  line_items_of_def item_data_def session_kwargs_def tax_kwargs_def save_discount_def
  save_tax_def truthy_str_def truthy_nat_def py_opt_int_def new_calls_def success_url_of_def
  buy_line_item_def Let_def

section \<open>The phases of a checkout\<close>

lemma stripe_call_eq:
  "stripe_call gw c w = (gw (log w) c, w\<lparr>log := log w @ [(c, gw (log w) c)]\<rparr>)"
  by (simp add: stripe_call_def Let_def)

lemma create_session_eq:
  "create_session gw kw w =
     (case gw (log w) (Session_create kw) of
        Inl e \<Rightarrow> Inr (HttpResponseBadRequest (''Stripe error: '' @ e))
      | Inr sid \<Rightarrow> Inr (JsonResponse (PDict [(''session_id'', PStr sid)])),
      w\<lparr>log := log w @ [(Session_create kw, gw (log w) (Session_create kw))]\<rparr>)"
  by (simp add: create_session_def stripe_call_eq split: sum.splits)

lemma check_discount_cases [case_names skip missing no_first raised created]:
  obtains
    "check_discount gw order w = (Inr (), w)"
    "discount_id order = None \<or>
     (\<exists>k d. discount_id order = Some k \<and> discount_rows (db w) k = Some d \<and>
            truthy_str (stripe_coupon_id d))"
  | k where
    "discount_id order = Some k" "discount_rows (db w) k = None"
    "check_discount gw order w = (Inl DoesNotExist, w)"
  | k d where
    "discount_id order = Some k" "discount_rows (db w) k = Some d"
    "\<not> truthy_str (stripe_coupon_id d)" "truthy_nat (amount_off d)"
    "items_first (db w) order = None"
    "check_discount gw order w = (Inl AttributeError, w)"
  | k d kw e where
    "discount_id order = Some k" "discount_rows (db w) k = Some d"
    "\<not> truthy_str (stripe_coupon_id d)" "coupon_kwargs (db w) order d = Inr kw"
    "gw (log w) (Coupon_create kw) = Inl e"
    "check_discount gw order w =
       (Inl (StripeRaised e), w\<lparr>log := log w @ [(Coupon_create kw, Inl e)]\<rparr>)"
  | k d kw cid where
    "discount_id order = Some k" "discount_rows (db w) k = Some d"
    "\<not> truthy_str (stripe_coupon_id d)" "coupon_kwargs (db w) order d = Inr kw"
    "gw (log w) (Coupon_create kw) = Inr cid"
    "check_discount gw order w =
       (Inr (), w\<lparr>db := (db w)\<lparr>discount_rows :=
                      (discount_rows (db w))(k \<mapsto> d\<lparr>stripe_coupon_id := Some cid\<rparr>)\<rparr>,
                  log := log w @ [(Coupon_create kw, Inr cid)]\<rparr>)"
proof (cases "discount_id order")
  case None
  then show ?thesis using that(1) by (simp add: check_discount_def)
next
  case (Some k)
  note k = this
  show ?thesis
  proof (cases "discount_rows (db w) k")
    case None
    then show ?thesis using k that(2) by (simp add: check_discount_def)
  next
    case (Some d)
    note d = this
    show ?thesis
    proof (cases "truthy_str (stripe_coupon_id d)")
      case True
      then show ?thesis using k d that(1) by (simp add: check_discount_def)
    next
      case False
      note f = this
      show ?thesis
      proof (cases "coupon_kwargs (db w) order d")
        case (Inl x)
        then have "truthy_nat (amount_off d) \<and> items_first (db w) order = None \<and> x = AttributeError"
          by (auto simp: coupon_kwargs_def split: if_splits option.splits)
        then show ?thesis using k d f Inl that(3) by (simp add: check_discount_def)
      next
        case (Inr kw)
        note kw = this
        show ?thesis
        proof (cases "gw (log w) (Coupon_create kw)")
          case (Inl e)
          then show ?thesis using k d f kw that(4)
            by (simp add: check_discount_def stripe_call_eq)
        next
          case (Inr cid)
          then show ?thesis using k d f kw that(5) [of k d kw cid]
            by (simp add: check_discount_def stripe_call_eq save_discount_def)
        qed
      qed
    qed
  qed
qed

lemma check_tax_cases [case_names none missing present raised created]:
  obtains
    "tax_id order = None" "check_tax gw order w = (Inr None, w)"
  | k where
    "tax_id order = Some k" "tax_rows (db w) k = None"
    "check_tax gw order w = (Inl DoesNotExist, w)"
  | k t where
    "tax_id order = Some k" "tax_rows (db w) k = Some t"
    "truthy_str (stripe_tax_rate_id t)"
    "check_tax gw order w = (Inr (Some t), w)"
  | k t e where
    "tax_id order = Some k" "tax_rows (db w) k = Some t"
    "\<not> truthy_str (stripe_tax_rate_id t)"
    "gw (log w) (TaxRate_create (tax_kwargs t)) = Inl e"
    "check_tax gw order w =
       (Inl (StripeRaised e), w\<lparr>log := log w @ [(TaxRate_create (tax_kwargs t), Inl e)]\<rparr>)"
  | k t tid where
    "tax_id order = Some k" "tax_rows (db w) k = Some t"
    "\<not> truthy_str (stripe_tax_rate_id t)"
    "gw (log w) (TaxRate_create (tax_kwargs t)) = Inr tid"
    "check_tax gw order w =
       (Inr (Some (t\<lparr>stripe_tax_rate_id := Some tid\<rparr>)),
        w\<lparr>db := (db w)\<lparr>tax_rows :=
               (tax_rows (db w))(k \<mapsto> t\<lparr>stripe_tax_rate_id := Some tid\<rparr>)\<rparr>,
           log := log w @ [(TaxRate_create (tax_kwargs t), Inr tid)]\<rparr>)"
proof (cases "tax_id order")
  case None
  then show ?thesis using that(1) by (simp add: check_tax_def)
next
  case (Some k)
  note k = this
  show ?thesis
  proof (cases "tax_rows (db w) k")
    case None
    then show ?thesis using k that(2) by (simp add: check_tax_def)
  next
    case (Some t)
    note t = this
    show ?thesis
    proof (cases "truthy_str (stripe_tax_rate_id t)")
      case True
      then show ?thesis using k t that(3) by (simp add: check_tax_def)
    next
      case False
      note f = this
      show ?thesis
      proof (cases "gw (log w) (TaxRate_create (tax_kwargs t))")
        case (Inl e)
        then show ?thesis using k t f that(4)
          by (simp add: check_tax_def stripe_call_eq)
      next
        case (Inr tid)
        then show ?thesis using k t f that(5) [of k t tid]
          by (simp add: check_tax_def stripe_call_eq save_tax_def Let_def)
      qed
    qed
  qed
qed


lemma buy_order_view_unfold:
  assumes "order_rows (db w) order_id = Some order"
  shows "buy_order_view gw root_uri order_id w =
     (case check_discount gw order w of
        (Inl e, w1) \<Rightarrow> (Inl e, w1)
      | (Inr _, w1) \<Rightarrow>
          (case check_tax gw order w1 of
             (Inl e, w2) \<Rightarrow> (Inl e, w2)
           | (Inr order_tax, w2) \<Rightarrow>
               create_session gw
                 (session_kwargs (line_items_of (db w2) order order_tax)
                    (success_url_of root_uri)
                    (butlast root_uri @ ''/order/'' @ str_nat order_id @ ''/'')) w2))"
  unfolding buy_order_view_def Let_def using assms by (simp only: option.case)

lemma buy_order_view_404:
  "order_rows (db w) order_id = None \<Longrightarrow> buy_order_view gw root_uri order_id w = (Inl Http404, w)"
  by (simp add: buy_order_view_def)

lemma check_discount_effect:
  assumes "check_discount gw order w = (r, w1)"
  shows "\<exists>pre. log w1 = log w @ pre \<and> (\<forall>x \<in> set pre. is_coupon_call x) \<and> length pre \<le> 1 \<and>
           (r = Inr () \<or> r = Inl DoesNotExist \<or> r = Inl AttributeError \<or>
            (\<exists>kw e. r = Inl (StripeRaised e) \<and> pre = [(Coupon_create kw, Inl e)] \<and> db w1 = db w))"
    and "item_rows (db w1) = item_rows (db w)"
    and "tax_rows (db w1) = tax_rows (db w)"
    and "order_rows (db w1) = order_rows (db w)"
  using assms
  by (cases rule: check_discount_cases [where order = order and w = w and gw = gw]; force)+

lemma check_tax_effect:
  assumes "check_tax gw order w = (r, w1)"
  shows "\<exists>pre. log w1 = log w @ pre \<and> (\<forall>x \<in> set pre. is_tax_call x) \<and> length pre \<le> 1 \<and>
           (case r of
              Inr order_tax \<Rightarrow>
                order_tax = (case tax_id order of None \<Rightarrow> None | Some k \<Rightarrow> tax_rows (db w1) k)
            | Inl x \<Rightarrow> x = DoesNotExist \<or>
                (\<exists>kw e. x = StripeRaised e \<and> pre = [(TaxRate_create kw, Inl e)] \<and> db w1 = db w))"
    and "item_rows (db w1) = item_rows (db w)"
    and "discount_rows (db w1) = discount_rows (db w)"
    and "order_rows (db w1) = order_rows (db w)"
  using assms
  by (cases rule: check_tax_cases [where order = order and w = w and gw = gw]; force)+




lemma coupon_call_kind: "is_coupon_call x \<Longrightarrow> \<not> is_tax_call x \<and> \<not> is_session_call x"
  by (cases x rule: is_coupon_call.cases) simp_all

lemma tax_call_kind: "is_tax_call x \<Longrightarrow> \<not> is_coupon_call x \<and> \<not> is_session_call x"
  by (cases x rule: is_tax_call.cases) simp_all



lemma buy_order_view_discount_raised:
  assumes "order_rows (db w) order_id = Some order"
    and "check_discount gw order w = (Inl e, w1)"
  shows "buy_order_view gw root_uri order_id w = (Inl e, w1)"
  using assms(2) by (simp only: buy_order_view_unfold [OF assms(1)] prod.case sum.case)

lemma buy_order_view_tax_raised:
  assumes "order_rows (db w) order_id = Some order"
    and "check_discount gw order w = (Inr u, w1)"
    and "check_tax gw order w1 = (Inl e, w2)"
  shows "buy_order_view gw root_uri order_id w = (Inl e, w2)"
  using assms(2,3) by (simp only: buy_order_view_unfold [OF assms(1)] prod.case sum.case)

lemma buy_order_view_session:
  assumes "order_rows (db w) order_id = Some order"
    and "check_discount gw order w = (Inr u, w1)"
    and "check_tax gw order w1 = (Inr order_tax, w2)"
  shows "buy_order_view gw root_uri order_id w =
     create_session gw
       (session_kwargs (line_items_of (db w) order order_tax) (success_url_of root_uri)
          (butlast root_uri @ ''/order/'' @ str_nat order_id @ ''/'')) w2"
proof -
  have "item_rows (db w2) = item_rows (db w)"
    using check_discount_effect(2) [OF assms(2)] check_tax_effect(2) [OF assms(3)] by simp
  then have "line_items_of (db w2) order order_tax = line_items_of (db w) order order_tax"
    by (simp add: line_items_of_def items_all_def)
  with assms(2,3) show ?thesis
    by (simp only: buy_order_view_unfold [OF assms(1)] prod.case sum.case)
qed

lemma buy_order_view_shape [consumes 1, case_names discount_raised tax_raised session]:
  assumes "order_rows (db w) order_id = Some order"
  obtains
    (discount_raised) e w1 where
      "check_discount gw order w = (Inl e, w1)"
      "buy_order_view gw root_uri order_id w = (Inl e, w1)"
  | (tax_raised) w1 e w2 where
      "check_discount gw order w = (Inr (), w1)"
      "check_tax gw order w1 = (Inl e, w2)"
      "buy_order_view gw root_uri order_id w = (Inl e, w2)"
  | (session) w1 order_tax w2 where
      "check_discount gw order w = (Inr (), w1)"
      "check_tax gw order w1 = (Inr order_tax, w2)"
      "buy_order_view gw root_uri order_id w =
         create_session gw
           (session_kwargs (line_items_of (db w) order order_tax) (success_url_of root_uri)
              (butlast root_uri @ ''/order/'' @ str_nat order_id @ ''/'')) w2"
proof -
  obtain r1 w1 where cd: "check_discount gw order w = (r1, w1)"
    by (cases "check_discount gw order w")
  obtain r2 w2 where ct: "check_tax gw order w1 = (r2, w2)"
    by (cases "check_tax gw order w1")
  show ?thesis
  proof (cases r1)
    case (Inl e)
    with cd have a: "check_discount gw order w = (Inl e, w1)" by simp
    show ?thesis
      by (rule discount_raised [OF a buy_order_view_discount_raised [OF assms a]])
  next
    case (Inr x)
    with cd have a: "check_discount gw order w = (Inr (), w1)" by simp
    show ?thesis
    proof (cases r2)
      case (Inl e)
      with ct have b: "check_tax gw order w1 = (Inl e, w2)" by simp
      show ?thesis
        by (rule tax_raised [OF a b buy_order_view_tax_raised [OF assms a b]])
    next
      case (Inr order_tax)
      with ct have b: "check_tax gw order w1 = (Inr order_tax, w2)" by simp
      show ?thesis
        by (rule session [OF a b buy_order_view_session [OF assms a b]])
    qed
  qed
qed


lemma no_session_in_phases:
  assumes "\<forall>x \<in> set pre1. is_coupon_call x" and "\<forall>x \<in> set pre2. is_tax_call x"
  shows "filter is_session_call (pre1 @ pre2) = []"
  using assms by (auto simp: filter_empty_conv dest: coupon_call_kind tax_call_kind)

lemma session_call_in_run:
  assumes "order_rows (db w) order_id = Some order"
    and "(Session_create kw, r) \<in> set (new_calls w (snd (buy_order_view gw root_uri order_id w)))"
  shows "\<exists>order_tax w2 pre.
     buy_order_view gw root_uri order_id w = create_session gw kw w2 \<and>
     kw = session_kwargs (line_items_of (db w) order order_tax) (success_url_of root_uri)
            (butlast root_uri @ ''/order/'' @ str_nat order_id @ ''/'') \<and>
     r = gw (log w2) (Session_create kw) \<and>
     log w2 = log w @ pre \<and> filter is_session_call pre = [] \<and>
     order_tax = (case tax_id order of None \<Rightarrow> None | Some k \<Rightarrow> tax_rows (db w2) k)"
  using assms(1)
proof (cases rule: buy_order_view_shape [where gw = gw and root_uri = root_uri])
  case (discount_raised e w1)
  from check_discount_effect(1) [OF discount_raised(1)]
  obtain pre where p: "log w1 = log w @ pre" "\<forall>x \<in> set pre. is_coupon_call x"
    by blast
  have "(Session_create kw, r) \<in> set pre"
    using assms(2) discount_raised(2) p(1) by (simp add: new_calls_def)
  with p(2) have False by auto
  then show ?thesis ..
next
  case (tax_raised w1 e w2)
  from check_discount_effect(1) [OF tax_raised(1)]
  obtain pre1 where p1: "log w1 = log w @ pre1" "\<forall>x \<in> set pre1. is_coupon_call x"
    by blast
  from check_tax_effect(1) [OF tax_raised(2)]
  obtain pre2 where p2: "log w2 = log w1 @ pre2" "\<forall>x \<in> set pre2. is_tax_call x"
    by blast
  have "(Session_create kw, r) \<in> set pre1 \<union> set pre2"
    using assms(2) tax_raised(3) p1(1) p2(1) by (simp add: new_calls_def)
  with p1(2) p2(2) have False by auto
  then show ?thesis ..
next
  case (session w1 order_tax w2)
  from check_discount_effect(1) [OF session(1)]
  obtain pre1 where p1: "log w1 = log w @ pre1" "\<forall>x \<in> set pre1. is_coupon_call x"
    by blast
  from check_tax_effect(1) [OF session(2)]
  obtain pre2 where p2: "log w2 = log w1 @ pre2" "\<forall>x \<in> set pre2. is_tax_call x"
    and ot: "order_tax = (case tax_id order of None \<Rightarrow> None | Some k \<Rightarrow> tax_rows (db w2) k)"
    by auto
  have notin: "(Session_create kw, r) \<notin> set pre1" "(Session_create kw, r) \<notin> set pre2"
    using p1(2) p2(2) by auto
  let ?kw = "session_kwargs (line_items_of (db w) order order_tax) (success_url_of root_uri)
               (butlast root_uri @ ''/order/'' @ str_nat order_id @ ''/'')"
  have lg: "log w2 = log w @ pre1 @ pre2"
    using p1(1) p2(1) by simp
  have nc: "new_calls w (snd (buy_order_view gw root_uri order_id w))
              = pre1 @ pre2 @ [(Session_create ?kw, gw (log w2) (Session_create ?kw))]"
    by (simp add: session(3) create_session_eq new_calls_def lg)
  from assms(2) notin have eq: "kw = ?kw \<and> r = gw (log w2) (Session_create ?kw)"
    unfolding nc by simp
  have "buy_order_view gw root_uri order_id w = create_session gw kw w2 \<and>
     kw = ?kw \<and> r = gw (log w2) (Session_create kw) \<and>
     log w2 = log w @ (pre1 @ pre2) \<and> filter is_session_call (pre1 @ pre2) = [] \<and>
     order_tax = (case tax_id order of None \<Rightarrow> None | Some k \<Rightarrow> tax_rows (db w2) k)"
    using session(3) eq lg no_session_in_phases [OF p1(2) p2(2)] ot by simp
  then show ?thesis by blast
qed


lemma session_call_summary:
  assumes "order_rows (db w) order_id = Some order"
    and "(Session_create kw, r) \<in> set (new_calls w (snd (buy_order_view gw root_uri order_id w)))"
  shows "\<exists>order_tax pre.
     kw = session_kwargs (line_items_of (db w) order order_tax) (success_url_of root_uri)
            (butlast root_uri @ ''/order/'' @ str_nat order_id @ ''/'') \<and>
     new_calls w (snd (buy_order_view gw root_uri order_id w)) = pre @ [(Session_create kw, r)] \<and>
     filter is_session_call pre = [] \<and>
     r = gw (log w @ pre) (Session_create kw) \<and>
     fst (buy_order_view gw root_uri order_id w) =
       (case r of
          Inl e \<Rightarrow> Inr (HttpResponseBadRequest (''Stripe error: '' @ e))
        | Inr sid \<Rightarrow> Inr (JsonResponse (PDict [(''session_id'', PStr sid)]))) \<and>
     order_tax = (case tax_id order of
                    None \<Rightarrow> None
                  | Some k \<Rightarrow> tax_rows (db (snd (buy_order_view gw root_uri order_id w))) k)"
proof -
  from session_call_in_run [OF assms]
  obtain order_tax w2 pre where
    run: "buy_order_view gw root_uri order_id w = create_session gw kw w2"
    and kw: "kw = session_kwargs (line_items_of (db w) order order_tax) (success_url_of root_uri)
            (butlast root_uri @ ''/order/'' @ str_nat order_id @ ''/'')"
    and r: "r = gw (log w2) (Session_create kw)"
    and lg: "log w2 = log w @ pre" and ns: "filter is_session_call pre = []"
    and ot: "order_tax = (case tax_id order of None \<Rightarrow> None | Some k \<Rightarrow> tax_rows (db w2) k)"
    by blast
  have a: "new_calls w (snd (buy_order_view gw root_uri order_id w)) = pre @ [(Session_create kw, r)]"
    by (simp add: run create_session_eq new_calls_def lg r)
  have b: "r = gw (log w @ pre) (Session_create kw)"
    using r lg by simp
  have c: "fst (buy_order_view gw root_uri order_id w) =
       (case r of
          Inl e \<Rightarrow> Inr (HttpResponseBadRequest (''Stripe error: '' @ e))
        | Inr sid \<Rightarrow> Inr (JsonResponse (PDict [(''session_id'', PStr sid)])))"
    by (simp add: run create_session_eq r)
  have d: "db (snd (buy_order_view gw root_uri order_id w)) = db w2"
    by (simp add: run create_session_eq)
  have e: "order_tax = (case tax_id order of
                    None \<Rightarrow> None
                  | Some k \<Rightarrow> tax_rows (db (snd (buy_order_view gw root_uri order_id w))) k)"
    using ot by (simp only: d)
  from kw a ns b c e show ?thesis by blast
qed

lemma response_has_session_call:
  assumes "order_rows (db w) order_id = Some order"
    and "fst (buy_order_view gw root_uri order_id w) = Inr resp"
  shows "\<exists>kw r. (Session_create kw, r)
            \<in> set (new_calls w (snd (buy_order_view gw root_uri order_id w)))"
  using assms(1)
proof (cases rule: buy_order_view_shape [where gw = gw and root_uri = root_uri])
  case (discount_raised e w1)
  with assms(2) show ?thesis by simp
next
  case (tax_raised w1 e w2)
  with assms(2) show ?thesis by simp
next
  case (session w1 order_tax w2)
  from check_discount_effect(1) [OF session(1)]
  obtain pre1 where p1: "log w1 = log w @ pre1" by blast
  from check_tax_effect(1) [OF session(2)]
  obtain pre2 where p2: "log w2 = log w1 @ pre2" by blast
  show ?thesis
    by (simp add: session(3) create_session_eq new_calls_def p1 p2) blast
qed

lemma item_data_fields:
  "pypath (item_data order_tax item) [''quantity''] = Some (PInt 1)"
  "pypath (item_data order_tax item) [''price_data'', ''currency''] = Some (PStr (currency item))"
  "pypath (item_data order_tax item) [''price_data'', ''unit_amount'']
     = Some (PInt (int (price item) * 100))"
  "pypath (item_data order_tax item) [''price_data'', ''product_data'', ''name'']
     = Some (PStr (item_name item))"
  "pypath (item_data order_tax item) [''price_data'', ''product_data'', ''description'']
     = Some (PStr (description item))"
  by (simp_all add: item_data_def)

lemma item_data_tax_rates:
  assumes "order_tax = Some t" and "stripe_tax_rate_id t = Some tid" and "tid \<noteq> []"
  shows "pypath (item_data order_tax item) [''tax_rates''] = Some (PList [PStr tid])"
  using assms by (simp add: item_data_def)

lemma order_exists_if_called:
  assumes "x \<in> set (new_calls w (snd (buy_order_view gw root_uri order_id w)))"
  shows "\<exists>order. order_rows (db w) order_id = Some order"
proof (cases "order_rows (db w) order_id")
  case None
  with assms show ?thesis by (simp add: buy_order_view_404 new_calls_def)
qed simp

lemma check_discount_frame:
  assumes "check_discount gw order w = (r, w1)"
  shows "\<forall>k. map_option (\<lambda>d. d\<lparr>stripe_coupon_id := None\<rparr>) (discount_rows (db w1) k)
             = map_option (\<lambda>d. d\<lparr>stripe_coupon_id := None\<rparr>) (discount_rows (db w) k)"
    and "\<forall>k d. discount_rows (db w) k = Some d \<and> truthy_str (stripe_coupon_id d) \<longrightarrow>
             discount_rows (db w1) k = Some d"
  using assms
  by (cases rule: check_discount_cases [where order = order and w = w and gw = gw]; force)+

lemma check_discount_persisted:
  assumes "check_discount gw order w = (r, w1)"
    and "(Coupon_create kw, Inr cid) \<in> set (new_calls w w1)"
  shows "\<exists>k d. discount_id order = Some k \<and> discount_rows (db w) k = Some d \<and>
           \<not> truthy_str (stripe_coupon_id d) \<and>
           discount_rows (db w1) k = Some (d\<lparr>stripe_coupon_id := Some cid\<rparr>)"
  using assms
  by (cases rule: check_discount_cases [where order = order and w = w and gw = gw])
     (auto simp: new_calls_def)

lemma check_discount_materialized:
  assumes "discount_id order = Some k" and "discount_rows (db w) k = Some d"
    and "truthy_str (stripe_coupon_id d)"
  shows "check_discount gw order w = (Inr (), w)"
  using assms by (simp add: check_discount_def)

lemma check_tax_frame:
  assumes "check_tax gw order w = (r, w1)"
  shows "\<forall>k. map_option (\<lambda>t. t\<lparr>stripe_tax_rate_id := None\<rparr>) (tax_rows (db w1) k)
             = map_option (\<lambda>t. t\<lparr>stripe_tax_rate_id := None\<rparr>) (tax_rows (db w) k)"
    and "\<forall>k t. tax_rows (db w) k = Some t \<and> truthy_str (stripe_tax_rate_id t) \<longrightarrow>
             tax_rows (db w1) k = Some t"
  using assms
  by (cases rule: check_tax_cases [where order = order and w = w and gw = gw]; force)+

lemma check_tax_persisted:
  assumes "check_tax gw order w = (r, w1)"
    and "(TaxRate_create kw, Inr tid) \<in> set (new_calls w w1)"
  shows "\<exists>k t. tax_id order = Some k \<and> tax_rows (db w) k = Some t \<and>
           \<not> truthy_str (stripe_tax_rate_id t) \<and>
           tax_rows (db w1) k = Some (t\<lparr>stripe_tax_rate_id := Some tid\<rparr>)"
  using assms
  by (cases rule: check_tax_cases [where order = order and w = w and gw = gw])
     (auto simp: new_calls_def)

lemma check_tax_materialized:
  assumes "tax_id order = Some k" and "tax_rows (db w) k = Some t"
    and "truthy_str (stripe_tax_rate_id t)"
  shows "check_tax gw order w = (Inr (Some t), w)"
  using assms by (simp add: check_tax_def)


lemma new_calls_append: "log w1 = log w @ pre \<Longrightarrow> new_calls w w1 = pre"
  by (simp add: new_calls_def)

text \<open>A request either stops in the discount check, or goes through the tax check and,
  when that returns, ends with the session call.\<close>

lemma run_decomposition [consumes 1, case_names stopped continued]:
  assumes "order_rows (db w) order_id = Some order"
  obtains
    (stopped) e w1 pre1 where
      "check_discount gw order w = (Inl e, w1)"
      "snd (buy_order_view gw root_uri order_id w) = w1"
      "log w1 = log w @ pre1" "\<forall>x \<in> set pre1. is_coupon_call x" "length pre1 \<le> 1"
  | (continued) w1 r2 w2 pre1 pre2 post where
      "check_discount gw order w = (Inr (), w1)"
      "check_tax gw order w1 = (r2, w2)"
      "db (snd (buy_order_view gw root_uri order_id w)) = db w2"
      "log w1 = log w @ pre1" "\<forall>x \<in> set pre1. is_coupon_call x" "length pre1 \<le> 1"
      "log w2 = log w1 @ pre2" "\<forall>x \<in> set pre2. is_tax_call x" "length pre2 \<le> 1"
      "log (snd (buy_order_view gw root_uri order_id w)) = log w2 @ post"
      "\<forall>x \<in> set post. is_session_call x"
  using assms
proof (cases rule: buy_order_view_shape [where gw = gw and root_uri = root_uri])
  case (discount_raised e w1)
  from check_discount_effect(1) [OF discount_raised(1)]
  obtain pre1 where "log w1 = log w @ pre1" "\<forall>x \<in> set pre1. is_coupon_call x" "length pre1 \<le> 1"
    by blast
  with discount_raised show ?thesis
    by (intro stopped [of e w1 pre1]) simp_all
next
  case (tax_raised w1 e w2)
  from check_discount_effect(1) [OF tax_raised(1)]
  obtain pre1 where p1: "log w1 = log w @ pre1" "\<forall>x \<in> set pre1. is_coupon_call x"
    "length pre1 \<le> 1"
    by blast
  from check_tax_effect(1) [OF tax_raised(2)]
  obtain pre2 where p2: "log w2 = log w1 @ pre2" "\<forall>x \<in> set pre2. is_tax_call x"
    "length pre2 \<le> 1"
    by blast
  from tax_raised p1 p2 show ?thesis
    by (intro continued [of w1 "Inl e" w2 pre1 pre2 "[]"]) simp_all
next
  case (session w1 order_tax w2)
  from check_discount_effect(1) [OF session(1)]
  obtain pre1 where p1: "log w1 = log w @ pre1" "\<forall>x \<in> set pre1. is_coupon_call x"
    "length pre1 \<le> 1"
    by blast
  from check_tax_effect(1) [OF session(2)]
  obtain pre2 where p2: "log w2 = log w1 @ pre2" "\<forall>x \<in> set pre2. is_tax_call x"
    "length pre2 \<le> 1"
    by blast
  let ?kw = "session_kwargs (line_items_of (db w) order order_tax) (success_url_of root_uri)
               (butlast root_uri @ ''/order/'' @ str_nat order_id @ ''/'')"
  from session p1 p2 show ?thesis
    by (intro continued [of w1 "Inr order_tax" w2 pre1 pre2
          "[(Session_create ?kw, gw (log w2) (Session_create ?kw))]"])
       (simp_all add: create_session_eq)
qed


lemma run_frame:
  assumes "order_rows (db w) order_id = Some order"
  shows "order_rows (db (snd (buy_order_view gw root_uri order_id w))) = order_rows (db w) \<and>
     item_rows (db (snd (buy_order_view gw root_uri order_id w))) = item_rows (db w) \<and>
     (\<forall>k. map_option (\<lambda>d. d\<lparr>stripe_coupon_id := None\<rparr>)
                (discount_rows (db (snd (buy_order_view gw root_uri order_id w))) k)
             = map_option (\<lambda>d. d\<lparr>stripe_coupon_id := None\<rparr>) (discount_rows (db w) k)) \<and>
     (\<forall>k. map_option (\<lambda>t. t\<lparr>stripe_tax_rate_id := None\<rparr>)
                (tax_rows (db (snd (buy_order_view gw root_uri order_id w))) k)
             = map_option (\<lambda>t. t\<lparr>stripe_tax_rate_id := None\<rparr>) (tax_rows (db w) k)) \<and>
     (\<forall>k d. discount_rows (db w) k = Some d \<and> truthy_str (stripe_coupon_id d) \<longrightarrow>
             discount_rows (db (snd (buy_order_view gw root_uri order_id w))) k = Some d) \<and>
     (\<forall>k t. tax_rows (db w) k = Some t \<and> truthy_str (stripe_tax_rate_id t) \<longrightarrow>
             tax_rows (db (snd (buy_order_view gw root_uri order_id w))) k = Some t)"
  using assms
proof (cases rule: run_decomposition [where gw = gw and root_uri = root_uri])
  case (stopped e w1 pre1)
  note cd = stopped(1)
  show ?thesis
    unfolding stopped(2)
    using check_discount_effect(2-4) [OF cd] check_discount_frame [OF cd]
    by simp
next
  case (continued w1 r2 w2 pre1 pre2 post)
  note cd = continued(1) and ct = continued(2)
  show ?thesis
    unfolding continued(3)
    using check_discount_effect(2-4) [OF cd] check_discount_frame [OF cd]
      check_tax_effect(2-4) [OF ct] check_tax_frame [OF ct]
    by simp
qed

lemma run_coupon_persisted:
  assumes "order_rows (db w) order_id = Some order"
    and "(Coupon_create kw, Inr cid)
           \<in> set (new_calls w (snd (buy_order_view gw root_uri order_id w)))"
  shows "\<exists>k d. discount_id order = Some k \<and> discount_rows (db w) k = Some d \<and>
           \<not> truthy_str (stripe_coupon_id d) \<and>
           discount_rows (db (snd (buy_order_view gw root_uri order_id w))) k
             = Some (d\<lparr>stripe_coupon_id := Some cid\<rparr>)"
  using assms(1)
proof (cases rule: run_decomposition [where gw = gw and root_uri = root_uri])
  case (stopped e w1 pre1)
  from assms(2) show ?thesis
    unfolding stopped(2) by (rule check_discount_persisted [OF stopped(1)])
next
  case (continued w1 r2 w2 pre1 pre2 post)
  have "new_calls w (snd (buy_order_view gw root_uri order_id w)) = pre1 @ pre2 @ post"
    using continued(4,7,10) by (simp add: new_calls_def)
  with assms(2) have "(Coupon_create kw, Inr cid) \<in> set pre1 \<union> set pre2 \<union> set post"
    by simp
  moreover have "(Coupon_create kw, Inr cid) \<notin> set pre2"
    using continued(8) by auto
  moreover have "(Coupon_create kw, Inr cid) \<notin> set post"
    using continued(11) by auto
  ultimately have "(Coupon_create kw, Inr cid) \<in> set (new_calls w w1)"
    using new_calls_append [OF continued(4)] by simp
  from check_discount_persisted [OF continued(1) this]
  obtain k d where kd: "discount_id order = Some k" "discount_rows (db w) k = Some d"
    "\<not> truthy_str (stripe_coupon_id d)"
    "discount_rows (db w1) k = Some (d\<lparr>stripe_coupon_id := Some cid\<rparr>)"
    by blast
  have "discount_rows (db (snd (buy_order_view gw root_uri order_id w))) = discount_rows (db w1)"
    unfolding continued(3) by (rule check_tax_effect(3) [OF continued(2)])
  with kd show ?thesis by simp
qed

lemma run_tax_persisted:
  assumes "order_rows (db w) order_id = Some order"
    and "(TaxRate_create kw, Inr tid)
           \<in> set (new_calls w (snd (buy_order_view gw root_uri order_id w)))"
  shows "\<exists>k t. tax_id order = Some k \<and> tax_rows (db w) k = Some t \<and>
           \<not> truthy_str (stripe_tax_rate_id t) \<and>
           tax_rows (db (snd (buy_order_view gw root_uri order_id w))) k
             = Some (t\<lparr>stripe_tax_rate_id := Some tid\<rparr>)"
  using assms(1)
proof (cases rule: run_decomposition [where gw = gw and root_uri = root_uri])
  case (stopped e w1 pre1)
  have "new_calls w (snd (buy_order_view gw root_uri order_id w)) = pre1"
    unfolding stopped(2) by (rule new_calls_append [OF stopped(3)])
  with assms(2) stopped(4) have False by auto
  then show ?thesis ..
next
  case (continued w1 r2 w2 pre1 pre2 post)
  have "new_calls w (snd (buy_order_view gw root_uri order_id w)) = pre1 @ pre2 @ post"
    using continued(4,7,10) by (simp add: new_calls_def)
  with assms(2) have "(TaxRate_create kw, Inr tid) \<in> set pre1 \<union> set pre2 \<union> set post"
    by simp
  moreover have "(TaxRate_create kw, Inr tid) \<notin> set pre1"
    using continued(5) by auto
  moreover have "(TaxRate_create kw, Inr tid) \<notin> set post"
    using continued(11) by auto
  ultimately have "(TaxRate_create kw, Inr tid) \<in> set (new_calls w1 w2)"
    using new_calls_append [OF continued(7)] by simp
  from check_tax_persisted [OF continued(2) this]
  obtain k t where kt: "tax_id order = Some k" "tax_rows (db w1) k = Some t"
    "\<not> truthy_str (stripe_tax_rate_id t)"
    "tax_rows (db w2) k = Some (t\<lparr>stripe_tax_rate_id := Some tid\<rparr>)"
    by blast
  have "tax_rows (db w1) = tax_rows (db w)"
    by (rule check_discount_effect(3) [OF continued(1)])
  with kt show ?thesis unfolding continued(3) by simp
qed


lemma buy_view_db: "db (snd (buy_view gw root_uri item_id w)) = db w"
  by (simp add: buy_view_def Let_def create_session_eq split: option.splits)

lemma session_call_kind: "is_session_call x \<Longrightarrow> \<not> is_coupon_call x \<and> \<not> is_tax_call x"
  by (cases x rule: is_session_call.cases) simp_all

lemma coupon_kwargs_shape:
  assumes "truthy_nat (amount_off discount) \<longrightarrow> items_first d order \<noteq> None"
  shows "\<exists>kw. coupon_kwargs d order discount = Inr kw \<and>
     (truthy_nat (amount_off discount) \<longrightarrow>
        (\<exists>n i first. amount_off discount = Some n \<and> n \<noteq> 0 \<and>
           items_first d order = Some (i, first) \<and>
           kw = [(''duration'', PStr ''once''), (''amount_off'', PInt (int n)),
                 (''currency'', PStr (currency first))])) \<and>
     (\<not> truthy_nat (amount_off discount) \<longrightarrow>
        kw = [(''duration'', PStr ''once''),
              (''percent_off'', py_opt_int (percent_off discount))])"
proof (cases "truthy_nat (amount_off discount)")
  case True
  with assms obtain i first where f: "items_first d order = Some (i, first)"
    by (cases "items_first d order") auto
  from True obtain n where n: "amount_off discount = Some n" "n \<noteq> 0"
    by (auto simp: truthy_nat_def split: option.splits)
  show ?thesis
    using True f n by (simp add: coupon_kwargs_def py_opt_int_def)
next
  case False
  then show ?thesis by (simp add: coupon_kwargs_def)
qed

lemma check_discount_unset:
  assumes "discount_id order = Some k" and "discount_rows (db w) k = Some discount"
    and "\<not> truthy_str (stripe_coupon_id discount)"
    and "coupon_kwargs (db w) order discount = Inr kw"
  shows "log (snd (check_discount gw order w))
           = log w @ [(Coupon_create kw, gw (log w) (Coupon_create kw))]"
  using assms
  by (simp add: check_discount_def stripe_call_eq save_discount_def split: sum.splits)

lemma run_log_grows:
  "log (snd (buy_order_view gw root_uri order_id w))
     = log w @ new_calls w (snd (buy_order_view gw root_uri order_id w))"
proof (cases "order_rows (db w) order_id")
  case None
  then show ?thesis by (simp add: buy_order_view_404 new_calls_def)
next
  case (Some order)
  then show ?thesis
  proof (cases rule: run_decomposition [where gw = gw and root_uri = root_uri])
    case (stopped e w1 pre1)
    then show ?thesis by (simp add: new_calls_def)
  next
    case (continued w1 r2 w2 pre1 pre2 post)
    then show ?thesis by (simp add: new_calls_def)
  qed
qed

lemma run_creation_calls:
  assumes "order_rows (db w) order_id = Some order"
  shows "length (filter is_coupon_call
                   (new_calls w (snd (buy_order_view gw root_uri order_id w)))) \<le> 1 \<and>
         length (filter is_tax_call
                   (new_calls w (snd (buy_order_view gw root_uri order_id w)))) \<le> 1"
  using assms
proof (cases rule: run_decomposition [where gw = gw and root_uri = root_uri])
  case (stopped e w1 pre1)
  have nc: "new_calls w (snd (buy_order_view gw root_uri order_id w)) = pre1"
    unfolding stopped(2) by (rule new_calls_append [OF stopped(3)])
  have "filter is_coupon_call pre1 = pre1" "filter is_tax_call pre1 = []"
    using stopped(4) by (auto simp: filter_empty_conv dest: coupon_call_kind)
  with stopped(5) show ?thesis unfolding nc by simp
next
  case (continued w1 r2 w2 pre1 pre2 post)
  have nc: "new_calls w (snd (buy_order_view gw root_uri order_id w)) = pre1 @ pre2 @ post"
    using continued(4,7,10) by (simp add: new_calls_def)
  have "filter is_coupon_call pre1 = pre1" "filter is_tax_call pre1 = []"
    using continued(5) by (auto simp: filter_empty_conv dest: coupon_call_kind)
  moreover have "filter is_coupon_call pre2 = []" "filter is_tax_call pre2 = pre2"
    using continued(8) by (auto simp: filter_empty_conv dest: tax_call_kind)
  moreover have "filter is_coupon_call post = []" "filter is_tax_call post = []"
    using continued(11) by (auto simp: filter_empty_conv dest: session_call_kind)
  ultimately show ?thesis
    unfolding nc using continued(6,9) by simp
qed

lemma run_materialized_no_coupon:
  assumes "order_rows (db w) order_id = Some order"
    and "discount_id order = Some k" and "discount_rows (db w) k = Some d"
    and "truthy_str (stripe_coupon_id d)"
  shows "filter is_coupon_call
           (new_calls w (snd (buy_order_view gw root_uri order_id w))) = []"
  using assms(1)
proof (cases rule: run_decomposition [where gw = gw and root_uri = root_uri])
  case (stopped e w1 pre1)
  with check_discount_materialized [OF assms(2-4), of gw] have False by simp
  then show ?thesis ..
next
  case (continued w1 r2 w2 pre1 pre2 post)
  from continued(1) check_discount_materialized [OF assms(2-4), of gw]
  have "w1 = w" by simp
  with continued(4) have p: "pre1 = []" by simp
  have nc: "new_calls w (snd (buy_order_view gw root_uri order_id w)) = pre2 @ post"
    using continued(4,7,10) p by (simp add: new_calls_def)
  show ?thesis
    unfolding nc using continued(8,11)
    by (auto simp: filter_empty_conv dest: tax_call_kind session_call_kind)
qed

lemma run_materialized_no_tax:
  assumes "order_rows (db w) order_id = Some order"
    and "tax_id order = Some k" and "tax_rows (db w) k = Some t"
    and "truthy_str (stripe_tax_rate_id t)"
  shows "filter is_tax_call
           (new_calls w (snd (buy_order_view gw root_uri order_id w))) = []"
  using assms(1)
proof (cases rule: run_decomposition [where gw = gw and root_uri = root_uri])
  case (stopped e w1 pre1)
  have nc: "new_calls w (snd (buy_order_view gw root_uri order_id w)) = pre1"
    unfolding stopped(2) by (rule new_calls_append [OF stopped(3)])
  show ?thesis
    unfolding nc using stopped(4) by (auto simp: filter_empty_conv dest: coupon_call_kind)
next
  case (continued w1 r2 w2 pre1 pre2 post)
  have "tax_rows (db w1) k = Some t"
    using check_discount_effect(3) [OF continued(1)] assms(3) by simp
  from continued(2) check_tax_materialized [OF assms(2) this assms(4), of gw]
  have "w2 = w1" by simp
  with continued(7) have p: "pre2 = []" by simp
  have nc: "new_calls w (snd (buy_order_view gw root_uri order_id w)) = pre1 @ post"
    using continued(4,7,10) p by (simp add: new_calls_def)
  show ?thesis
    unfolding nc using continued(5,11)
    by (auto simp: filter_empty_conv dest: coupon_call_kind session_call_kind)
qed

lemma two_runs_calls:
  "new_calls w (snd (buy_order_view gw u2 o2 (snd (buy_order_view gw u1 o1 w))))
     = new_calls w (snd (buy_order_view gw u1 o1 w))
       @ new_calls (snd (buy_order_view gw u1 o1 w))
           (snd (buy_order_view gw u2 o2 (snd (buy_order_view gw u1 o1 w))))"
proof -
  let ?w1 = "snd (buy_order_view gw u1 o1 w)"
  let ?w2 = "snd (buy_order_view gw u2 o2 ?w1)"
  have "log ?w2 = log ?w1 @ new_calls ?w1 ?w2" by (rule run_log_grows)
  also have "log ?w1 = log w @ new_calls w ?w1" by (rule run_log_grows)
  finally have "log ?w2 = log w @ (new_calls w ?w1 @ new_calls ?w1 ?w2)" by simp
  then show ?thesis by (rule new_calls_append)
qed

lemma coupon_call_shape:
  assumes "x \<in> set lg" and "is_coupon_call x"
  shows "\<exists>kw r. (Coupon_create kw, r) \<in> set lg \<and> x = (Coupon_create kw, r)"
proof -
  obtain c r where cr: "x = (c, r)" by (cases x)
  from assms(2) cr obtain kw where "c = Coupon_create kw" by (cases c) simp_all
  with assms(1) cr show ?thesis by simp
qed

lemma tax_call_shape:
  assumes "x \<in> set lg" and "is_tax_call x"
  shows "\<exists>kw r. (TaxRate_create kw, r) \<in> set lg \<and> x = (TaxRate_create kw, r)"
proof -
  obtain c r where cr: "x = (c, r)" by (cases x)
  from assms(2) cr obtain kw where "c = TaxRate_create kw" by (cases c) simp_all
  with assms(1) cr show ?thesis by simp
qed

lemma two_checkouts_one_coupon_call:
  assumes o1: "order_rows (db w) o1 = Some ord1" and o2: "order_rows (db w) o2 = Some ord2"
    and d1: "discount_id ord1 = Some k" and d2: "discount_id ord2 = Some k"
    and ok: "\<forall>kw r. (Coupon_create kw, r) \<in> set (new_calls w (snd (buy_order_view gw u1 o1 w)))
               \<longrightarrow> (\<exists>cid. r = Inr cid \<and> cid \<noteq> [])"
  shows "length (filter is_coupon_call
           (new_calls w (snd (buy_order_view gw u2 o2 (snd (buy_order_view gw u1 o1 w)))))) \<le> 1"
proof -
  let ?w1 = "snd (buy_order_view gw u1 o1 w)"
  let ?w2 = "snd (buy_order_view gw u2 o2 ?w1)"
  have o2': "order_rows (db ?w1) o2 = Some ord2"
    using run_frame [OF o1, of gw u1, THEN conjunct1] o2 by simp
  have split: "length (filter is_coupon_call (new_calls w ?w2))
      = length (filter is_coupon_call (new_calls w ?w1))
        + length (filter is_coupon_call (new_calls ?w1 ?w2))"
    unfolding two_runs_calls by simp
  note le1 = run_creation_calls [OF o1, of gw u1, THEN conjunct1]
  note le2 = run_creation_calls [OF o2', of gw u2, THEN conjunct1]
  show ?thesis
  proof (cases "filter is_coupon_call (new_calls w ?w1) = []")
    case True
    with split le2 show ?thesis by simp
  next
    case False
    then obtain x where x: "x \<in> set (new_calls w ?w1)" "is_coupon_call x"
      by (auto simp: filter_empty_conv)
    from coupon_call_shape [OF x]
    obtain kw r where m: "(Coupon_create kw, r) \<in> set (new_calls w ?w1)"
      by (elim exE conjE)
    from mp [OF spec [OF spec [OF ok]] m]
    obtain cid where r: "r = Inr cid" and ne: "cid \<noteq> []"
      by (elim exE conjE)
    from m r have m': "(Coupon_create kw, Inr cid) \<in> set (new_calls w ?w1)" by simp
    from run_coupon_persisted [OF o1 m']
    obtain k' d where "discount_id ord1 = Some k'"
      and row: "discount_rows (db ?w1) k' = Some (d\<lparr>stripe_coupon_id := Some cid\<rparr>)"
      by (elim exE conjE)
    with d1 have k: "k' = k" by simp
    from ne have tr: "truthy_str (stripe_coupon_id (d\<lparr>stripe_coupon_id := Some cid\<rparr>))"
      by (simp add: truthy_str_def)
    from row k have row': "discount_rows (db ?w1) k = Some (d\<lparr>stripe_coupon_id := Some cid\<rparr>)"
      by simp
    from run_materialized_no_coupon [OF o2' d2 row' tr, of gw u2]
    have "length (filter is_coupon_call (new_calls ?w1 ?w2)) = 0" by simp
    with split le1 show ?thesis by simp
  qed
qed

lemma two_checkouts_one_tax_rate_call:
  assumes o1: "order_rows (db w) o1 = Some ord1" and o2: "order_rows (db w) o2 = Some ord2"
    and d1: "tax_id ord1 = Some k" and d2: "tax_id ord2 = Some k"
    and ok: "\<forall>kw r. (TaxRate_create kw, r) \<in> set (new_calls w (snd (buy_order_view gw u1 o1 w)))
               \<longrightarrow> (\<exists>tid. r = Inr tid \<and> tid \<noteq> [])"
  shows "length (filter is_tax_call
           (new_calls w (snd (buy_order_view gw u2 o2 (snd (buy_order_view gw u1 o1 w)))))) \<le> 1"
proof -
  let ?w1 = "snd (buy_order_view gw u1 o1 w)"
  let ?w2 = "snd (buy_order_view gw u2 o2 ?w1)"
  have o2': "order_rows (db ?w1) o2 = Some ord2"
    using run_frame [OF o1, of gw u1, THEN conjunct1] o2 by simp
  have split: "length (filter is_tax_call (new_calls w ?w2))
      = length (filter is_tax_call (new_calls w ?w1))
        + length (filter is_tax_call (new_calls ?w1 ?w2))"
    unfolding two_runs_calls by simp
  note le1 = run_creation_calls [OF o1, of gw u1, THEN conjunct2]
  note le2 = run_creation_calls [OF o2', of gw u2, THEN conjunct2]
  show ?thesis
  proof (cases "filter is_tax_call (new_calls w ?w1) = []")
    case True
    with split le2 show ?thesis by simp
  next
    case False
    then obtain x where x: "x \<in> set (new_calls w ?w1)" "is_tax_call x"
      by (auto simp: filter_empty_conv)
    from tax_call_shape [OF x]
    obtain kw r where m: "(TaxRate_create kw, r) \<in> set (new_calls w ?w1)"
      by (elim exE conjE)
    from mp [OF spec [OF spec [OF ok]] m]
    obtain tid where r: "r = Inr tid" and ne: "tid \<noteq> []"
      by (elim exE conjE)
    from m r have m': "(TaxRate_create kw, Inr tid) \<in> set (new_calls w ?w1)" by simp
    from run_tax_persisted [OF o1 m']
    obtain k' t where "tax_id ord1 = Some k'"
      and row: "tax_rows (db ?w1) k' = Some (t\<lparr>stripe_tax_rate_id := Some tid\<rparr>)"
      by (elim exE conjE)
    with d1 have k: "k' = k" by simp
    from ne have tr: "truthy_str (stripe_tax_rate_id (t\<lparr>stripe_tax_rate_id := Some tid\<rparr>))"
      by (simp add: truthy_str_def)
    from row k have row': "tax_rows (db ?w1) k = Some (t\<lparr>stripe_tax_rate_id := Some tid\<rparr>)"
      by simp
    from run_materialized_no_tax [OF o2' d2 row' tr, of gw u2]
    have "length (filter is_tax_call (new_calls ?w1 ?w2)) = 0" by simp
    with split le1 show ?thesis by simp
  qed
qed

lemma run_set_once:
  "(\<forall>k d. discount_rows (db w) k = Some d \<and> truthy_str (stripe_coupon_id d) \<longrightarrow>
       discount_rows (db (snd (buy_order_view gw root_uri order_id w))) k = Some d) \<and>
   (\<forall>k t. tax_rows (db w) k = Some t \<and> truthy_str (stripe_tax_rate_id t) \<longrightarrow>
       tax_rows (db (snd (buy_order_view gw root_uri order_id w))) k = Some t)"
proof (cases "order_rows (db w) order_id")
  case None
  then show ?thesis by (simp add: buy_order_view_404)
next
  case (Some order)
  note f = run_frame [OF Some, of gw root_uri]
  from f [THEN conjunct2, THEN conjunct2, THEN conjunct2, THEN conjunct2]
  show ?thesis .
qed

text \<open>The run of order 4 on the sample shop sends the request above.\<close>

lemma order4_request_sent:
  "(Session_create order4_request, Inr ''cs_test_1'')
     \<in> set (new_calls shop (snd (buy_order_view gw_ok shop_url 4 shop)))"
  by (simp add: view_defs shop_defs gw_ok_def order4_request_def)

section \<open>Properties of the checkout views\<close>

text \<open>
  Claim C9. For an item identifier with no Item row, \<open>buy_view\<close> raises \<open>Http404\<close> (the
  not-found response) and leaves the world as it was, so no gateway call has been made; the
  same holds for \<open>buy_order_view\<close> and an order identifier with no Order row. The exception
  is the outcome of the view: nothing catches or transforms it.
\<close>

theorem not_found_before_gateway:
  "(item_rows (db w) item_id = None \<longrightarrow>
      buy_view gw root_uri item_id w = (Inl Http404, w)) \<and>
   (order_rows (db w) order_id = None \<longrightarrow>
      buy_order_view gw root_uri order_id w = (Inl Http404, w))"
  by (simp add: buy_view_def buy_order_view_def)

theorem not_found_before_gateway_witness:
  "item_rows (db shop) 9 = None \<and> order_rows (db shop) 9 = None \<and>
   buy_view gw_ok shop_url 9 shop = (Inl Http404, shop) \<and>
   buy_order_view gw_ok shop_url 9 shop = (Inl Http404, shop)"
proof -
  have a: "item_rows (db shop) 9 = None" and b: "order_rows (db shop) 9 = None"
    by (simp_all add: shop_defs)
  from a b not_found_before_gateway [of shop 9 gw_ok shop_url 9]
  show ?thesis by simp
qed

text \<open>
  Claim C10. When the order's item collection is empty and its discount has a nonzero
  \<open>amount_off\<close> and no remote coupon id, \<open>buy_order_view\<close> raises \<open>AttributeError\<close>
  while it reads the currency of the first item, and the world is unchanged: no coupon call
  and no session call has been made.
\<close>

theorem empty_order_amount_off_raises:
  assumes "order_rows (db w) order_id = Some order"
    and "items_all (db w) order = []"
    and "discount_id order = Some k"
    and "discount_rows (db w) k = Some discount"
    and "amount_off discount = Some n" and "n \<noteq> 0"
    and "\<not> truthy_str (stripe_coupon_id discount)"
  shows "buy_order_view gw root_uri order_id w = (Inl AttributeError, w)"
proof -
  have "items_first (db w) order = None"
    using assms(2) by (simp add: items_first_def)
  moreover have "truthy_nat (amount_off discount)"
    using assms(5,6) by (simp add: truthy_nat_def)
  ultimately have "check_discount gw order w = (Inl AttributeError, w)"
    using assms(3,4,7) by (simp add: check_discount_def coupon_kwargs_def)
  then show ?thesis
    by (simp add: buy_order_view_unfold [OF assms(1)])
qed

theorem empty_order_amount_off_raises_witness:
  "order_rows (db shop) 3 = Some order3 \<and> items_all (db shop) order3 = [] \<and>
   discount_id order3 = Some 2 \<and> discount_rows (db shop) 2 = Some five_off \<and>
   amount_off five_off = Some 5 \<and> stripe_coupon_id five_off = None \<and>
   buy_order_view gw_ok shop_url 3 shop = (Inl AttributeError, shop)"
proof -
  have a: "order_rows (db shop) 3 = Some order3"
    by (simp add: shop_def shop_db_def)
  have b: "items_all (db shop) order3 = []"
    by (simp add: items_all_def order3_def)
  have k: "discount_id order3 = Some 2"
    by (simp add: order3_def)
  have c: "discount_rows (db shop) 2 = Some five_off"
    by (simp add: shop_def shop_db_def)
  have d: "amount_off five_off = Some 5" and n: "stripe_coupon_id five_off = None"
    by (simp_all add: five_off_def)
  have z: "(5::nat) \<noteq> 0" by simp
  have e: "\<not> truthy_str (stripe_coupon_id five_off)"
    by (simp add: n truthy_str_def)
  from empty_order_amount_off_raises [OF a b k c d z e, of gw_ok shop_url]
  have r: "buy_order_view gw_ok shop_url 3 shop = (Inl AttributeError, shop)" .
  from a b k c d n r show ?thesis by (intro conjI)
qed

text \<open>
  Claim C4. For an existing Item, \<open>buy_view\<close> makes exactly one gateway call, a session
  creation whose \<open>line_items\<close> hold one line item with the item's currency, unit amount
  \<open>price * 100\<close>, quantity 1, the item's name and the first 200 characters of its
  description; when the gateway returns a session id, the response is the JSON body
  \<open>{"session_id": id}\<close>.
\<close>

theorem buy_view_line_item:
  assumes "item_rows (db w) item_id = Some item"
  shows "\<exists>kw li.
     new_calls w (snd (buy_view gw root_uri item_id w))
       = [(Session_create kw, gw (log w) (Session_create kw))] \<and>
     map_of kw ''line_items'' = Some (PList [li]) \<and>
     pypath li [''price_data'', ''currency''] = Some (PStr (currency item)) \<and>
     pypath li [''price_data'', ''unit_amount''] = Some (PInt (int (price item) * 100)) \<and>
     pypath li [''quantity''] = Some (PInt 1) \<and>
     pypath li [''price_data'', ''product_data'', ''name''] = Some (PStr (item_name item)) \<and>
     pypath li [''price_data'', ''product_data'', ''description'']
       = Some (PStr (take 200 (description item))) \<and>
     (\<forall>sid. gw (log w) (Session_create kw) = Inr sid \<longrightarrow>
        fst (buy_view gw root_uri item_id w)
          = Inr (JsonResponse (PDict [(''session_id'', PStr sid)])))"
  using assms
  by (simp add: buy_view_def Let_def new_calls_def create_session_eq
      session_kwargs_def buy_line_item_def)

theorem buy_view_line_item_witness:
  "item_rows (db shop) 1 = Some mug \<and>
   (\<exists>kw li.
     new_calls shop (snd (buy_view gw_ok shop_url 1 shop))
       = [(Session_create kw, Inr ''cs_test_1'')] \<and>
     map_of kw ''line_items'' = Some (PList [li]) \<and>
     pypath li [''price_data'', ''currency''] = Some (PStr ''USD'') \<and>
     pypath li [''price_data'', ''unit_amount''] = Some (PInt 1000) \<and>
     pypath li [''quantity''] = Some (PInt 1)) \<and>
   fst (buy_view gw_ok shop_url 1 shop)
     = Inr (JsonResponse (PDict [(''session_id'', PStr ''cs_test_1'')]))"
proof -
  have h: "item_rows (db shop) 1 = Some mug"
    by (simp add: shop_defs)
  from buy_view_line_item [OF h, of gw_ok shop_url]
  show ?thesis using h
    by (auto simp: gw_ok_def mug_def)
qed

text \<open>
  Claim C7. In \<open>buy_order_view\<close> an exception raised by the coupon creation or by the
  tax-rate creation is the outcome of the view (it is not turned into the
  \<open>Stripe error\<close> response). When the coupon creation raises, that call is the only gateway
  call of the request and the database is unchanged: no tax rate is created and no session
  request, which would carry the line items, is made. When the tax-rate creation raises, it
  is the last call and no session request is made.
\<close>

theorem gateway_errors_before_session_propagate:
  "(\<forall>kw e. (Coupon_create kw, Inl e) \<in> set (new_calls w (snd (buy_order_view gw root_uri order_id w))) \<longrightarrow>
      fst (buy_order_view gw root_uri order_id w) = Inl (StripeRaised e) \<and>
      new_calls w (snd (buy_order_view gw root_uri order_id w)) = [(Coupon_create kw, Inl e)] \<and>
      db (snd (buy_order_view gw root_uri order_id w)) = db w) \<and>
   (\<forall>kw e. (TaxRate_create kw, Inl e) \<in> set (new_calls w (snd (buy_order_view gw root_uri order_id w))) \<longrightarrow>
      fst (buy_order_view gw root_uri order_id w) = Inl (StripeRaised e) \<and>
      last (new_calls w (snd (buy_order_view gw root_uri order_id w))) = (TaxRate_create kw, Inl e) \<and>
      filter is_session_call (new_calls w (snd (buy_order_view gw root_uri order_id w))) = [])"
proof (cases "order_rows (db w) order_id")
  case None
  then show ?thesis by (simp add: buy_order_view_404 new_calls_def)
next
  case (Some order)
  note u = buy_order_view_unfold [OF Some, of gw root_uri]
  show ?thesis
  proof (cases rule: check_discount_cases [where order = order and w = w and gw = gw])
    case skip
    then show ?thesis
      by (cases rule: check_tax_cases [where order = order and w = w and gw = gw])
         (auto simp: u new_calls_def create_session_eq)
  next
    case (missing k)
    then show ?thesis by (simp add: u new_calls_def)
  next
    case (no_first k d)
    then show ?thesis by (simp add: u new_calls_def)
  next
    case (raised k d kw e)
    then show ?thesis by (auto simp: u new_calls_def)
  next
    case (created k d kw cid)
    then show ?thesis
      by (cases rule: check_tax_cases [where order = order and w = "snd (check_discount gw order w)" and gw = gw])
         (auto simp: u new_calls_def create_session_eq)
  qed
qed

theorem gateway_errors_before_session_propagate_witness:
  "fst (buy_order_view gw_down shop_url 1 shop) = Inl (StripeRaised ''connection refused'') \<and>
   new_calls shop (snd (buy_order_view gw_down shop_url 1 shop))
     = [(Coupon_create [(''duration'', PStr ''once''), (''percent_off'', PInt 10)],
         Inl ''connection refused'')] \<and>
   db (snd (buy_order_view gw_down shop_url 1 shop)) = db shop \<and>
   fst (buy_order_view gw_tax_fails shop_url 1 shop) = Inl (StripeRaised ''invalid percentage'') \<and>
   filter is_session_call (new_calls shop (snd (buy_order_view gw_tax_fails shop_url 1 shop))) = []"
proof -
  have a: "(Coupon_create [(''duration'', PStr ''once''), (''percent_off'', PInt 10)],
            Inl ''connection refused'')
           \<in> set (new_calls shop (snd (buy_order_view gw_down shop_url 1 shop)))"
    by (simp add: view_defs shop_defs gw_down_def)
  have b: "(TaxRate_create [(''display_name'', PStr ''VAT''), (''percentage'', PInt 20),
                            (''inclusive'', PBool False)], Inl ''invalid percentage'')
           \<in> set (new_calls shop (snd (buy_order_view gw_tax_fails shop_url 1 shop)))"
    by (simp add: view_defs shop_defs gw_tax_fails_def)
  from a b
    gateway_errors_before_session_propagate [of shop gw_down shop_url 1]
    gateway_errors_before_session_propagate [of shop gw_tax_fails shop_url 1]
  show ?thesis by blast
qed

text \<open>
  Claim C6. In both views an exception raised by the session creation is caught and becomes
  the response \<open>HttpResponseBadRequest\<close> (status 400) whose body is
  \<open>Stripe error: \<close> followed by the string of the exception; the call is made once
  (it is the only session call of the request and the last gateway call), and when it
  returns a session the response is the JSON session identifier.
\<close>

theorem session_failure_is_bad_request:
  "(\<forall>item. item_rows (db w) item_id = Some item \<longrightarrow>
      (\<exists>kw. new_calls w (snd (buy_view gw root_uri item_id w))
               = [(Session_create kw, gw (log w) (Session_create kw))] \<and>
         (\<forall>e. gw (log w) (Session_create kw) = Inl e \<longrightarrow>
            fst (buy_view gw root_uri item_id w)
              = Inr (HttpResponseBadRequest (''Stripe error: '' @ e)) \<and>
            status_code (HttpResponseBadRequest (''Stripe error: '' @ e)) = 400) \<and>
         (\<forall>sid. gw (log w) (Session_create kw) = Inr sid \<longrightarrow>
            fst (buy_view gw root_uri item_id w)
              = Inr (JsonResponse (PDict [(''session_id'', PStr sid)]))))) \<and>
   (\<forall>kw r. (Session_create kw, r)
              \<in> set (new_calls w (snd (buy_order_view gw root_uri order_id w))) \<longrightarrow>
      filter is_session_call (new_calls w (snd (buy_order_view gw root_uri order_id w)))
        = [(Session_create kw, r)] \<and>
      last (new_calls w (snd (buy_order_view gw root_uri order_id w))) = (Session_create kw, r) \<and>
      (\<forall>e. r = Inl e \<longrightarrow>
         fst (buy_order_view gw root_uri order_id w)
           = Inr (HttpResponseBadRequest (''Stripe error: '' @ e)) \<and>
         status_code (HttpResponseBadRequest (''Stripe error: '' @ e)) = 400) \<and>
      (\<forall>sid. r = Inr sid \<longrightarrow>
         fst (buy_order_view gw root_uri order_id w)
           = Inr (JsonResponse (PDict [(''session_id'', PStr sid)]))))"
proof (intro conjI allI impI)
  fix item assume "item_rows (db w) item_id = Some item"
  then show "\<exists>kw. new_calls w (snd (buy_view gw root_uri item_id w))
               = [(Session_create kw, gw (log w) (Session_create kw))] \<and>
         (\<forall>e. gw (log w) (Session_create kw) = Inl e \<longrightarrow>
            fst (buy_view gw root_uri item_id w)
              = Inr (HttpResponseBadRequest (''Stripe error: '' @ e)) \<and>
            status_code (HttpResponseBadRequest (''Stripe error: '' @ e)) = 400) \<and>
         (\<forall>sid. gw (log w) (Session_create kw) = Inr sid \<longrightarrow>
            fst (buy_view gw root_uri item_id w)
              = Inr (JsonResponse (PDict [(''session_id'', PStr sid)])))"
    by (simp add: buy_view_def Let_def create_session_eq new_calls_def)
next
  fix kw r
  assume m: "(Session_create kw, r)
              \<in> set (new_calls w (snd (buy_order_view gw root_uri order_id w)))"
  have ex: "\<exists>order. order_rows (db w) order_id = Some order"
  proof (cases "order_rows (db w) order_id")
    case None
    with m show ?thesis by (simp add: buy_order_view_404 new_calls_def)
  qed simp
  then obtain order where o: "order_rows (db w) order_id = Some order" ..
  from session_call_summary [OF o m]
  obtain pre where
    nc: "new_calls w (snd (buy_order_view gw root_uri order_id w)) = pre @ [(Session_create kw, r)]"
    and ns: "filter is_session_call pre = []"
    and out: "fst (buy_order_view gw root_uri order_id w) =
       (case r of
          Inl e \<Rightarrow> Inr (HttpResponseBadRequest (''Stripe error: '' @ e))
        | Inr sid \<Rightarrow> Inr (JsonResponse (PDict [(''session_id'', PStr sid)])))"
    by blast
  show "filter is_session_call (new_calls w (snd (buy_order_view gw root_uri order_id w)))
        = [(Session_create kw, r)]"
    by (simp add: nc ns)
  show "last (new_calls w (snd (buy_order_view gw root_uri order_id w))) = (Session_create kw, r)"
    by (simp add: nc)
  { fix e assume "r = Inl e"
    then show "fst (buy_order_view gw root_uri order_id w)
           = Inr (HttpResponseBadRequest (''Stripe error: '' @ e))"
      by (simp add: out)
    show "status_code (HttpResponseBadRequest (''Stripe error: '' @ e)) = 400" by simp }
  { fix sid assume "r = Inr sid"
    then show "fst (buy_order_view gw root_uri order_id w)
           = Inr (JsonResponse (PDict [(''session_id'', PStr sid)]))"
      by (simp add: out) }
qed


theorem session_failure_is_bad_request_witness:
  "item_rows (db shop) 1 = Some mug \<and>
   fst (buy_view gw_down shop_url 1 shop)
     = Inr (HttpResponseBadRequest ''Stripe error: connection refused'') \<and>
   fst (buy_order_view gw_session_fails shop_url 4 shop)
     = Inr (HttpResponseBadRequest ''Stripe error: card declined'') \<and>
   fst (buy_order_view gw_ok shop_url 4 shop)
     = Inr (JsonResponse (PDict [(''session_id'', PStr ''cs_test_1'')]))"
proof -
  have a: "item_rows (db shop) 1 = Some mug"
    by (simp add: shop_defs)
  have "\<exists>kw. (Session_create kw, Inl ''card declined'')
           \<in> set (new_calls shop (snd (buy_order_view gw_session_fails shop_url 4 shop)))"
    by (simp add: view_defs shop_defs gw_session_fails_def)
  then obtain kw1 where b: "(Session_create kw1, Inl ''card declined'')
           \<in> set (new_calls shop (snd (buy_order_view gw_session_fails shop_url 4 shop)))" ..
  have "\<exists>kw. (Session_create kw, Inr ''cs_test_1'')
           \<in> set (new_calls shop (snd (buy_order_view gw_ok shop_url 4 shop)))"
    by (simp add: view_defs shop_defs gw_ok_def)
  then obtain kw2 where c: "(Session_create kw2, Inr ''cs_test_1'')
           \<in> set (new_calls shop (snd (buy_order_view gw_ok shop_url 4 shop)))" ..
  note t1 = session_failure_is_bad_request [of shop 1 gw_down shop_url 4, THEN conjunct1]
  note t2 = session_failure_is_bad_request [of shop 1 gw_session_fails shop_url 4, THEN conjunct2]
  note t3 = session_failure_is_bad_request [of shop 1 gw_ok shop_url 4, THEN conjunct2]
  from mp [OF spec [OF t1] a]
  obtain kw where e: "\<forall>e. gw_down (log shop) (Session_create kw) = Inl e \<longrightarrow>
            fst (buy_view gw_down shop_url 1 shop)
              = Inr (HttpResponseBadRequest (''Stripe error: '' @ e)) \<and>
            status_code (HttpResponseBadRequest (''Stripe error: '' @ e)) = 400"
    by (elim exE conjE)
  have "gw_down (log shop) (Session_create kw) = Inl ''connection refused''"
    by (simp add: gw_down_def)
  from mp [OF spec [OF e] this]
  have r1: "fst (buy_view gw_down shop_url 1 shop)
     = Inr (HttpResponseBadRequest ''Stripe error: connection refused'')"
    by simp
  from mp [OF spec [OF spec [OF t2]] b]
  have "\<forall>e. Inl ''card declined'' = (Inl e :: api_result) \<longrightarrow>
         fst (buy_order_view gw_session_fails shop_url 4 shop)
           = Inr (HttpResponseBadRequest (''Stripe error: '' @ e)) \<and>
         status_code (HttpResponseBadRequest (''Stripe error: '' @ e)) = 400"
    by (elim conjE)
  from mp [OF spec [OF this] refl]
  have r2: "fst (buy_order_view gw_session_fails shop_url 4 shop)
     = Inr (HttpResponseBadRequest ''Stripe error: card declined'')"
    by simp
  from mp [OF spec [OF spec [OF t3]] c]
  have "\<forall>sid. Inr ''cs_test_1'' = (Inr sid :: api_result) \<longrightarrow>
         fst (buy_order_view gw_ok shop_url 4 shop)
           = Inr (JsonResponse (PDict [(''session_id'', PStr sid)]))"
    by (elim conjE)
  from mp [OF spec [OF this] refl]
  have r3: "fst (buy_order_view gw_ok shop_url 4 shop)
     = Inr (JsonResponse (PDict [(''session_id'', PStr ''cs_test_1'')]))" .
  from a r1 r2 r3 show ?thesis by (intro conjI)
qed

text \<open>
  Claim C5. The session request of an order checkout is exactly the five keyword arguments
  \<open>payment_method_types = ["card"]\<close>, \<open>line_items\<close>, \<open>mode = "payment"\<close>,
  \<open>success_url\<close> and \<open>cancel_url\<close>, and every value in it is fixed by the request's
  origin, the order id, the order's items and the remote id of the order's tax: a line item
  holds the item's currency, name, description and \<open>price * 100\<close>, quantity 1 and, when the
  tax has a non-empty remote id, that id as its \<open>tax_rates\<close>. Neither the order's discount
  nor any Discount row occurs in the request, so the materialized remote coupon id is not
  sent, also when the order's discount has one.
\<close>

theorem session_request_has_no_coupon:
  assumes "(Session_create kw, r)
             \<in> set (new_calls w (snd (buy_order_view gw root_uri order_id w)))"
  shows "map fst kw
           = [''payment_method_types'', ''line_items'', ''mode'', ''success_url'', ''cancel_url''] \<and>
     (\<exists>order.
        order_rows (db w) order_id = Some order \<and>
        kw = [(''payment_method_types'', PList [PStr ''card'']),
              (''line_items'',
               PList (map (\<lambda>row.
                  PDict ([(''price_data'', PDict [
                             (''currency'', PStr (currency (snd row))),
                             (''product_data'', PDict [
                                (''name'', PStr (item_name (snd row))),
                                (''description'', PStr (description (snd row)))]),
                             (''unit_amount'', PInt (int (price (snd row)) * 100))]),
                          (''quantity'', PInt 1)]
                         @ (case tax_id order of
                              None \<Rightarrow> []
                            | Some k \<Rightarrow>
                                (case tax_rows (db (snd (buy_order_view gw root_uri order_id w))) k of
                                   None \<Rightarrow> []
                                 | Some t \<Rightarrow>
                                     (case stripe_tax_rate_id t of
                                        None \<Rightarrow> []
                                      | Some tid \<Rightarrow>
                                          if tid = [] then []
                                          else [(''tax_rates'', PList [PStr tid])])))))
                  (items_all (db w) order))),
              (''mode'', PStr ''payment''),
              (''success_url'',
               PStr (butlast root_uri @ ''/success?session_id={CHECKOUT_SESSION_ID}'')),
              (''cancel_url'',
               PStr (butlast root_uri @ ''/order/'' @ str_nat order_id @ ''/''))])"
proof -
  from order_exists_if_called [OF assms]
  obtain order where o: "order_rows (db w) order_id = Some order" ..
  from session_call_summary [OF o assms]
  obtain order_tax where
    kw: "kw = session_kwargs (line_items_of (db w) order order_tax) (success_url_of root_uri)
            (butlast root_uri @ ''/order/'' @ str_nat order_id @ ''/'')"
    and ot: "order_tax = (case tax_id order of
                    None \<Rightarrow> None
                  | Some k \<Rightarrow> tax_rows (db (snd (buy_order_view gw root_uri order_id w))) k)"
    by blast
  have keys: "map fst kw
           = [''payment_method_types'', ''line_items'', ''mode'', ''success_url'', ''cancel_url'']"
    by (simp add: kw session_kwargs_def)
  have li: "line_items_of (db w) order order_tax
      = map (\<lambda>row.
                  PDict ([(''price_data'', PDict [
                             (''currency'', PStr (currency (snd row))),
                             (''product_data'', PDict [
                                (''name'', PStr (item_name (snd row))),
                                (''description'', PStr (description (snd row)))]),
                             (''unit_amount'', PInt (int (price (snd row)) * 100))]),
                          (''quantity'', PInt 1)]
                         @ (case tax_id order of
                              None \<Rightarrow> []
                            | Some k \<Rightarrow>
                                (case tax_rows (db (snd (buy_order_view gw root_uri order_id w))) k of
                                   None \<Rightarrow> []
                                 | Some t \<Rightarrow>
                                     (case stripe_tax_rate_id t of
                                        None \<Rightarrow> []
                                      | Some tid \<Rightarrow>
                                          if tid = [] then []
                                          else [(''tax_rates'', PList [PStr tid])])))))
                  (items_all (db w) order)"
    unfolding line_items_of_def ot
    by (rule map_cong [OF refl])
       (simp add: item_data_def case_prod_unfold split: option.splits)
  have eq: "kw = [(''payment_method_types'', PList [PStr ''card'']),
              (''line_items'', PList (line_items_of (db w) order order_tax)),
              (''mode'', PStr ''payment''),
              (''success_url'',
               PStr (butlast root_uri @ ''/success?session_id={CHECKOUT_SESSION_ID}'')),
              (''cancel_url'',
               PStr (butlast root_uri @ ''/order/'' @ str_nat order_id @ ''/''))]"
    unfolding kw session_kwargs_def success_url_of_def ..
  show ?thesis
    apply (rule conjI [OF keys])
    apply (rule exI [of _ order])
    apply (rule conjI [OF o])
    apply (subst li [symmetric])
    apply (rule eq)
    done
qed


theorem session_request_has_no_coupon_witness:
  "discount_id order4 = Some 3 \<and> discount_rows (db shop) 3 = Some promo \<and>
   stripe_coupon_id promo = Some ''co_old'' \<and>
   (Session_create order4_request, Inr ''cs_test_1'')
      \<in> set (new_calls shop (snd (buy_order_view gw_ok shop_url 4 shop))) \<and>
   map fst order4_request
     = [''payment_method_types'', ''line_items'', ''mode'', ''success_url'', ''cancel_url''] \<and>
   map_of order4_request ''line_items''
     = Some (PList [
         PDict [(''price_data'', PDict [
                   (''currency'', PStr ''USD''),
                   (''product_data'', PDict [(''name'', PStr ''Mug''),
                                             (''description'', PStr ''A mug'')]),
                   (''unit_amount'', PInt 1000)]),
                (''quantity'', PInt 1),
                (''tax_rates'', PList [PStr ''txr_old''])],
         PDict [(''price_data'', PDict [
                   (''currency'', PStr ''EUR''),
                   (''product_data'', PDict [(''name'', PStr ''Pen''),
                                             (''description'', PStr ''A pen'')]),
                   (''unit_amount'', PInt 300)]),
                (''quantity'', PInt 1),
                (''tax_rates'', PList [PStr ''txr_old''])],
         PDict [(''price_data'', PDict [
                   (''currency'', PStr ''USD''),
                   (''product_data'', PDict [(''name'', PStr ''Mug''),
                                             (''description'', PStr ''A mug'')]),
                   (''unit_amount'', PInt 1000)]),
                (''quantity'', PInt 1),
                (''tax_rates'', PList [PStr ''txr_old''])]])"
proof -
  note c = order4_request_sent
  note t = session_request_has_no_coupon [OF c]
  note k = t [THEN conjunct1]
  have o4: "order_rows (db shop) 4 = Some order4"
    by (simp add: shop_def shop_db_def)
  have ia: "items_all (db shop) order4 = [(1, mug), (2, pen), (1, mug)]"
    by (simp add: items_all_def shop_def shop_db_def order4_def)
  have t4: "tax_id order4 = Some 2"
    by (simp add: order4_def)
  have tx: "tax_rows (db (snd (buy_order_view gw_ok shop_url 4 shop))) 2 = Some gst"
    by (simp add: view_defs shop_defs gw_ok_def)
  have gid: "stripe_tax_rate_id gst = Some ''txr_old''"
    by (simp add: gst_def)
  from t [THEN conjunct2] obtain order where
    a: "order_rows (db shop) 4 = Some order"
    and e: "order4_request =
        [(''payment_method_types'', PList [PStr ''card'']),
              (''line_items'',
               PList (map (\<lambda>row.
                  PDict ([(''price_data'', PDict [
                             (''currency'', PStr (currency (snd row))),
                             (''product_data'', PDict [
                                (''name'', PStr (item_name (snd row))),
                                (''description'', PStr (description (snd row)))]),
                             (''unit_amount'', PInt (int (price (snd row)) * 100))]),
                          (''quantity'', PInt 1)]
                         @ (case tax_id order of
                              None \<Rightarrow> []
                            | Some k \<Rightarrow>
                                (case tax_rows (db (snd (buy_order_view gw_ok shop_url 4 shop))) k of
                                   None \<Rightarrow> []
                                 | Some t \<Rightarrow>
                                     (case stripe_tax_rate_id t of
                                        None \<Rightarrow> []
                                      | Some tid \<Rightarrow>
                                          if tid = [] then []
                                          else [(''tax_rates'', PList [PStr tid])])))))
                  (items_all (db shop) order))),
              (''mode'', PStr ''payment''),
              (''success_url'',
               PStr (butlast shop_url @ ''/success?session_id={CHECKOUT_SESSION_ID}'')),
              (''cancel_url'',
               PStr (butlast shop_url @ ''/order/'' @ str_nat 4 @ ''/''))]"
    by (elim exE conjE)
  from a o4 have oo: "order = order4" by simp
  have li: "map_of order4_request ''line_items''
     = Some (PList [
         PDict [(''price_data'', PDict [
                   (''currency'', PStr ''USD''),
                   (''product_data'', PDict [(''name'', PStr ''Mug''),
                                             (''description'', PStr ''A mug'')]),
                   (''unit_amount'', PInt 1000)]),
                (''quantity'', PInt 1),
                (''tax_rates'', PList [PStr ''txr_old''])],
         PDict [(''price_data'', PDict [
                   (''currency'', PStr ''EUR''),
                   (''product_data'', PDict [(''name'', PStr ''Pen''),
                                             (''description'', PStr ''A pen'')]),
                   (''unit_amount'', PInt 300)]),
                (''quantity'', PInt 1),
                (''tax_rates'', PList [PStr ''txr_old''])],
         PDict [(''price_data'', PDict [
                   (''currency'', PStr ''USD''),
                   (''product_data'', PDict [(''name'', PStr ''Mug''),
                                             (''description'', PStr ''A mug'')]),
                   (''unit_amount'', PInt 1000)]),
                (''quantity'', PInt 1),
                (''tax_rates'', PList [PStr ''txr_old''])]])"
    apply (subst e)
    apply (simp only: oo ia t4 tx gid option.case)
    apply (simp add: mug_def pen_def)
    done
  have f: "discount_id order4 = Some 3"
    by (simp add: order4_def)
  have g: "discount_rows (db shop) 3 = Some promo"
    by (simp add: shop_def shop_db_def)
  have h: "stripe_coupon_id promo = Some ''co_old''"
    by (simp add: promo_def)
  from f g h c k li show ?thesis by (intro conjI)
qed

text \<open>
  Claim C3. A checkout that answers with a response has made exactly one session request.
  The \<open>line_items\<close> of a session request hold one entry per row of
  \<open>order.items.all()\<close>, in that order and without aggregation: entry \<open>i\<close> has quantity 1,
  the currency of item \<open>i\<close> and unit amount \<open>price * 100\<close>; when the order's tax has a
  non-empty remote tax-rate id after the tax check, every entry carries that id as its
  \<open>tax_rates\<close>.
\<close>

theorem order_line_items:
  assumes "order_rows (db w) order_id = Some order"
  shows "(\<forall>resp. fst (buy_order_view gw root_uri order_id w) = Inr resp \<longrightarrow>
       length (filter is_session_call
                 (new_calls w (snd (buy_order_view gw root_uri order_id w)))) = 1) \<and>
   (\<forall>kw r. (Session_create kw, r)
              \<in> set (new_calls w (snd (buy_order_view gw root_uri order_id w))) \<longrightarrow>
      (\<exists>lis. map_of kw ''line_items'' = Some (PList lis) \<and>
         length lis = length (items_all (db w) order) \<and>
         (\<forall>i < length lis.
            pypath (lis ! i) [''quantity''] = Some (PInt 1) \<and>
            pypath (lis ! i) [''price_data'', ''currency'']
              = Some (PStr (currency (snd (items_all (db w) order ! i)))) \<and>
            pypath (lis ! i) [''price_data'', ''unit_amount'']
              = Some (PInt (int (price (snd (items_all (db w) order ! i))) * 100)) \<and>
            (\<forall>k t tid.
               tax_id order = Some k \<and>
               tax_rows (db (snd (buy_order_view gw root_uri order_id w))) k = Some t \<and>
               stripe_tax_rate_id t = Some tid \<and> tid \<noteq> [] \<longrightarrow>
               pypath (lis ! i) [''tax_rates''] = Some (PList [PStr tid])))))"
proof (intro conjI allI impI)
  fix resp
  assume "fst (buy_order_view gw root_uri order_id w) = Inr resp"
  from response_has_session_call [OF assms this]
  obtain kw r where m: "(Session_create kw, r)
      \<in> set (new_calls w (snd (buy_order_view gw root_uri order_id w)))"
    by blast
  from session_call_summary [OF assms m]
  obtain pre where
    "new_calls w (snd (buy_order_view gw root_uri order_id w)) = pre @ [(Session_create kw, r)]"
    "filter is_session_call pre = []"
    by blast
  then show "length (filter is_session_call
                 (new_calls w (snd (buy_order_view gw root_uri order_id w)))) = 1"
    by simp
next
  fix kw r
  assume m: "(Session_create kw, r)
      \<in> set (new_calls w (snd (buy_order_view gw root_uri order_id w)))"
  from session_call_summary [OF assms m]
  obtain order_tax where
    kw: "kw = session_kwargs (line_items_of (db w) order order_tax) (success_url_of root_uri)
            (butlast root_uri @ ''/order/'' @ str_nat order_id @ ''/'')"
    and ot: "order_tax = (case tax_id order of
                    None \<Rightarrow> None
                  | Some k \<Rightarrow> tax_rows (db (snd (buy_order_view gw root_uri order_id w))) k)"
    by blast
  let ?lis = "line_items_of (db w) order order_tax"
  have a: "map_of kw ''line_items'' = Some (PList ?lis)"
    by (simp add: kw session_kwargs_def)
  have b: "length ?lis = length (items_all (db w) order)"
    by (simp add: line_items_of_def)
  have c: "\<forall>i < length ?lis.
            pypath (?lis ! i) [''quantity''] = Some (PInt 1) \<and>
            pypath (?lis ! i) [''price_data'', ''currency'']
              = Some (PStr (currency (snd (items_all (db w) order ! i)))) \<and>
            pypath (?lis ! i) [''price_data'', ''unit_amount'']
              = Some (PInt (int (price (snd (items_all (db w) order ! i))) * 100)) \<and>
            (\<forall>k t tid.
               tax_id order = Some k \<and>
               tax_rows (db (snd (buy_order_view gw root_uri order_id w))) k = Some t \<and>
               stripe_tax_rate_id t = Some tid \<and> tid \<noteq> [] \<longrightarrow>
               pypath (?lis ! i) [''tax_rates''] = Some (PList [PStr tid]))"
  proof (intro allI impI)
    fix i assume i: "i < length ?lis"
    then have nth: "?lis ! i = item_data order_tax (snd (items_all (db w) order ! i))"
      by (simp add: line_items_of_def case_prod_unfold)
    have tr: "\<forall>k t tid.
               tax_id order = Some k \<and>
               tax_rows (db (snd (buy_order_view gw root_uri order_id w))) k = Some t \<and>
               stripe_tax_rate_id t = Some tid \<and> tid \<noteq> [] \<longrightarrow>
               pypath (?lis ! i) [''tax_rates''] = Some (PList [PStr tid])"
    proof (intro allI impI, elim conjE)
      fix k t tid
      assume "tax_id order = Some k"
        "tax_rows (db (snd (buy_order_view gw root_uri order_id w))) k = Some t"
        and t: "stripe_tax_rate_id t = Some tid" "tid \<noteq> []"
      with ot have "order_tax = Some t" by simp
      from item_data_tax_rates [OF this t]
      show "pypath (?lis ! i) [''tax_rates''] = Some (PList [PStr tid])"
        by (simp only: nth)
    qed
    show "pypath (?lis ! i) [''quantity''] = Some (PInt 1) \<and>
            pypath (?lis ! i) [''price_data'', ''currency'']
              = Some (PStr (currency (snd (items_all (db w) order ! i)))) \<and>
            pypath (?lis ! i) [''price_data'', ''unit_amount'']
              = Some (PInt (int (price (snd (items_all (db w) order ! i))) * 100)) \<and>
            (\<forall>k t tid.
               tax_id order = Some k \<and>
               tax_rows (db (snd (buy_order_view gw root_uri order_id w))) k = Some t \<and>
               stripe_tax_rate_id t = Some tid \<and> tid \<noteq> [] \<longrightarrow>
               pypath (?lis ! i) [''tax_rates''] = Some (PList [PStr tid]))"
      using tr by (simp only: nth item_data_fields)
  qed
  from a b c show "\<exists>lis. map_of kw ''line_items'' = Some (PList lis) \<and>
         length lis = length (items_all (db w) order) \<and>
         (\<forall>i < length lis.
            pypath (lis ! i) [''quantity''] = Some (PInt 1) \<and>
            pypath (lis ! i) [''price_data'', ''currency'']
              = Some (PStr (currency (snd (items_all (db w) order ! i)))) \<and>
            pypath (lis ! i) [''price_data'', ''unit_amount'']
              = Some (PInt (int (price (snd (items_all (db w) order ! i))) * 100)) \<and>
            (\<forall>k t tid.
               tax_id order = Some k \<and>
               tax_rows (db (snd (buy_order_view gw root_uri order_id w))) k = Some t \<and>
               stripe_tax_rate_id t = Some tid \<and> tid \<noteq> [] \<longrightarrow>
               pypath (lis ! i) [''tax_rates''] = Some (PList [PStr tid])))"
    by blast
qed

theorem order_line_items_witness:
  "order_rows (db shop) 4 = Some order4 \<and>
   items_all (db shop) order4 = [(1, mug), (2, pen), (1, mug)] \<and>
   length (filter is_session_call
             (new_calls shop (snd (buy_order_view gw_ok shop_url 4 shop)))) = 1 \<and>
   (Session_create order4_request, Inr ''cs_test_1'')
      \<in> set (new_calls shop (snd (buy_order_view gw_ok shop_url 4 shop))) \<and>
   (case map_of order4_request ''line_items'' of
      Some (PList lis) \<Rightarrow>
        length lis = 3 \<and>
        pypath (lis ! 2) [''price_data'', ''unit_amount''] = Some (PInt 1000) \<and>
        pypath (lis ! 1) [''price_data'', ''currency''] = Some (PStr ''EUR'') \<and>
        pypath (lis ! 0) [''tax_rates''] = Some (PList [PStr ''txr_old''])
    | _ \<Rightarrow> False)"
proof -
  have o: "order_rows (db shop) 4 = Some order4"
    by (simp add: shop_def shop_db_def)
  have resp: "fst (buy_order_view gw_ok shop_url 4 shop)
      = Inr (JsonResponse (PDict [(''session_id'', PStr ''cs_test_1'')]))"
    by (simp add: view_defs shop_defs gw_ok_def)
  note c = order4_request_sent
  have ia: "items_all (db shop) order4 = [(1, mug), (2, pen), (1, mug)]"
    by (simp add: items_all_def shop_def shop_db_def order4_def)
  have tx: "tax_id order4 = Some 2 \<and>
            tax_rows (db (snd (buy_order_view gw_ok shop_url 4 shop))) 2 = Some gst \<and>
            stripe_tax_rate_id gst = Some ''txr_old'' \<and> ''txr_old'' \<noteq> []"
    by (simp add: view_defs shop_defs gw_ok_def)
  note t = order_line_items [OF o, of gw_ok shop_url]
  from mp [OF spec [OF t [THEN conjunct1]] resp]
  have one: "length (filter is_session_call
      (new_calls shop (snd (buy_order_view gw_ok shop_url 4 shop)))) = 1" .
  from mp [OF spec [OF spec [OF t [THEN conjunct2]]] c]
  obtain lis where l: "map_of order4_request ''line_items'' = Some (PList lis)"
    and ll: "length lis = length (items_all (db shop) order4)"
    and f: "\<forall>i < length lis.
            pypath (lis ! i) [''quantity''] = Some (PInt 1) \<and>
            pypath (lis ! i) [''price_data'', ''currency'']
              = Some (PStr (currency (snd (items_all (db shop) order4 ! i)))) \<and>
            pypath (lis ! i) [''price_data'', ''unit_amount'']
              = Some (PInt (int (price (snd (items_all (db shop) order4 ! i))) * 100)) \<and>
            (\<forall>k t tid.
               tax_id order4 = Some k \<and>
               tax_rows (db (snd (buy_order_view gw_ok shop_url 4 shop))) k = Some t \<and>
               stripe_tax_rate_id t = Some tid \<and> tid \<noteq> [] \<longrightarrow>
               pypath (lis ! i) [''tax_rates''] = Some (PList [PStr tid]))"
    by (elim exE conjE)
  have len: "length lis = 3"
    using ll unfolding ia by simp
  have i0: "0 < length lis" and i1: "1 < length lis" and i2: "2 < length lis"
    unfolding len by simp_all
  note f0 = mp [OF spec [OF f] i0] and f1 = mp [OF spec [OF f] i1] and f2 = mp [OF spec [OF f] i2]
  from f2 have "pypath (lis ! 2) [''price_data'', ''unit_amount'']
      = Some (PInt (int (price (snd (items_all (db shop) order4 ! 2))) * 100))"
    by (elim conjE)
  then have u: "pypath (lis ! 2) [''price_data'', ''unit_amount''] = Some (PInt 1000)"
    unfolding ia by (simp add: mug_def)
  from f1 have "pypath (lis ! 1) [''price_data'', ''currency'']
      = Some (PStr (currency (snd (items_all (db shop) order4 ! 1))))"
    by (elim conjE)
  then have cu: "pypath (lis ! 1) [''price_data'', ''currency''] = Some (PStr ''EUR'')"
    unfolding ia by (simp add: pen_def)
  from f0 have "\<forall>k t tid.
               tax_id order4 = Some k \<and>
               tax_rows (db (snd (buy_order_view gw_ok shop_url 4 shop))) k = Some t \<and>
               stripe_tax_rate_id t = Some tid \<and> tid \<noteq> [] \<longrightarrow>
               pypath (lis ! 0) [''tax_rates''] = Some (PList [PStr tid])"
    by (elim conjE)
  from mp [OF spec [OF spec [OF spec [OF this]]] tx]
  have tr: "pypath (lis ! 0) [''tax_rates''] = Some (PList [PStr ''txr_old''])" .
  have cs: "(case map_of order4_request ''line_items'' of
      Some (PList lis) \<Rightarrow>
        length lis = 3 \<and>
        pypath (lis ! 2) [''price_data'', ''unit_amount''] = Some (PInt 1000) \<and>
        pypath (lis ! 1) [''price_data'', ''currency''] = Some (PStr ''EUR'') \<and>
        pypath (lis ! 0) [''tax_rates''] = Some (PList [PStr ''txr_old''])
    | _ \<Rightarrow> False)"
    unfolding l option.case pyval.case using len u cu tr by (intro conjI)
  from o ia one c cs show ?thesis by (intro conjI)
qed




text \<open>
  The discount check on an order that has a first item whenever it needs one: if the
  discount's \<open>stripe_coupon_id\<close> is false, the first gateway call of the request is a coupon
  creation and it is the only one, amount-based with the currency of
  \<open>order.items.first()\<close> when \<open>amount_off\<close> is true and percent-based otherwise, and an id
  it returns is in the Discount row the request leaves behind.
\<close>

lemma order_coupon_materialized:
  assumes "order_rows (db w) order_id = Some order"
    and "discount_id order = Some k"
    and "discount_rows (db w) k = Some discount"
    and "\<not> truthy_str (stripe_coupon_id discount)"
    and "truthy_nat (amount_off discount) \<longrightarrow> items_first (db w) order \<noteq> None"
  shows "\<exists>kw rest.
     new_calls w (snd (buy_order_view gw root_uri order_id w))
       = (Coupon_create kw, gw (log w) (Coupon_create kw)) # rest \<and>
     filter is_coupon_call rest = [] \<and>
     (truthy_nat (amount_off discount) \<longrightarrow>
        (\<exists>n i first. amount_off discount = Some n \<and> n \<noteq> 0 \<and>
           items_first (db w) order = Some (i, first) \<and>
           kw = [(''duration'', PStr ''once''), (''amount_off'', PInt (int n)),
                 (''currency'', PStr (currency first))])) \<and>
     (\<not> truthy_nat (amount_off discount) \<longrightarrow>
        kw = [(''duration'', PStr ''once''),
              (''percent_off'', py_opt_int (percent_off discount))]) \<and>
     (\<forall>cid. gw (log w) (Coupon_create kw) = Inr cid \<longrightarrow>
        discount_rows (db (snd (buy_order_view gw root_uri order_id w))) k
          = Some (discount\<lparr>stripe_coupon_id := Some cid\<rparr>))"
proof -
  from coupon_kwargs_shape [OF assms(5)]
  obtain kw where ck: "coupon_kwargs (db w) order discount = Inr kw"
    and amount: "truthy_nat (amount_off discount) \<longrightarrow>
        (\<exists>n i first. amount_off discount = Some n \<and> n \<noteq> 0 \<and>
           items_first (db w) order = Some (i, first) \<and>
           kw = [(''duration'', PStr ''once''), (''amount_off'', PInt (int n)),
                 (''currency'', PStr (currency first))])"
    and percent: "\<not> truthy_nat (amount_off discount) \<longrightarrow>
        kw = [(''duration'', PStr ''once''),
              (''percent_off'', py_opt_int (percent_off discount))]"
    by (elim exE conjE)
  let ?x = "(Coupon_create kw, gw (log w) (Coupon_create kw))"
  let ?w' = "snd (buy_order_view gw root_uri order_id w)"
  note lg = check_discount_unset [OF assms(2,3,4) ck, of gw]
  have calls: "\<exists>rest. new_calls w ?w' = ?x # rest \<and> filter is_coupon_call rest = []"
    using assms(1)
  proof (cases rule: run_decomposition [where gw = gw and root_uri = root_uri])
    case (stopped e w1 pre1)
    from lg stopped(1,3) have "pre1 = [?x]" by simp
    with stopped(2,3) have "new_calls w ?w' = ?x # []"
      by (simp add: new_calls_def)
    then show ?thesis by simp
  next
    case (continued w1 r2 w2 pre1 pre2 post)
    from lg continued(1,4) have p: "pre1 = [?x]" by simp
    have "new_calls w ?w' = ?x # (pre2 @ post)"
      using continued(4,7,10) p by (simp add: new_calls_def)
    moreover have "filter is_coupon_call (pre2 @ post) = []"
      using continued(8,11)
      by (auto simp: filter_empty_conv dest: tax_call_kind session_call_kind)
    ultimately show ?thesis by simp
  qed
  then obtain rest where r: "new_calls w ?w' = ?x # rest" "filter is_coupon_call rest = []"
    by (elim exE conjE)
  have persist: "\<forall>cid. gw (log w) (Coupon_create kw) = Inr cid \<longrightarrow>
        discount_rows (db ?w') k = Some (discount\<lparr>stripe_coupon_id := Some cid\<rparr>)"
  proof (intro allI impI)
    fix cid assume "gw (log w) (Coupon_create kw) = Inr cid"
    with r(1) have "(Coupon_create kw, Inr cid) \<in> set (new_calls w ?w')" by simp
    from run_coupon_persisted [OF assms(1) this]
    obtain k' d' where "discount_id order = Some k'" "discount_rows (db w) k' = Some d'"
      "discount_rows (db ?w') k' = Some (d'\<lparr>stripe_coupon_id := Some cid\<rparr>)"
      by (elim exE conjE)
    with assms(2,3)
    show "discount_rows (db ?w') k = Some (discount\<lparr>stripe_coupon_id := Some cid\<rparr>)"
      by simp
  qed
  from r amount percent persist
  have "new_calls w ?w' = ?x # rest \<and>
     filter is_coupon_call rest = [] \<and>
     (truthy_nat (amount_off discount) \<longrightarrow>
        (\<exists>n i first. amount_off discount = Some n \<and> n \<noteq> 0 \<and>
           items_first (db w) order = Some (i, first) \<and>
           kw = [(''duration'', PStr ''once''), (''amount_off'', PInt (int n)),
                 (''currency'', PStr (currency first))])) \<and>
     (\<not> truthy_nat (amount_off discount) \<longrightarrow>
        kw = [(''duration'', PStr ''once''),
              (''percent_off'', py_opt_int (percent_off discount))]) \<and>
     (\<forall>cid. gw (log w) (Coupon_create kw) = Inr cid \<longrightarrow>
        discount_rows (db ?w') k = Some (discount\<lparr>stripe_coupon_id := Some cid\<rparr>))"
    by (intro conjI)
  then show ?thesis by (intro exI [of _ kw] exI [of _ rest])
qed


lemma order_coupon_materialized_example:
  "order_rows (db shop) 5 = Some order5 \<and> discount_id order5 = Some 2 \<and>
   discount_rows (db shop) 2 = Some five_off \<and>
   \<not> truthy_str (stripe_coupon_id five_off) \<and>
   truthy_nat (amount_off five_off) \<and>
   items_first (db shop) order5 = Some (1, mug) \<and>
   (case new_calls shop (snd (buy_order_view gw_ok shop_url 5 shop)) of
      [] \<Rightarrow> False
    | x # rest \<Rightarrow>
        x = (Coupon_create [(''duration'', PStr ''once''), (''amount_off'', PInt 5),
                            (''currency'', PStr ''USD'')], Inr ''co_1'') \<and>
        filter is_coupon_call rest = []) \<and>
   discount_rows (db (snd (buy_order_view gw_ok shop_url 5 shop))) 2
     = Some (five_off\<lparr>stripe_coupon_id := Some ''co_1''\<rparr>)"
proof -
  have o: "order_rows (db shop) 5 = Some order5"
    by (simp add: shop_def shop_db_def)
  have d: "discount_id order5 = Some 2"
    by (simp add: order5_def)
  have dr: "discount_rows (db shop) 2 = Some five_off"
    by (simp add: shop_def shop_db_def)
  have nt: "\<not> truthy_str (stripe_coupon_id five_off)"
    by (simp add: truthy_str_def five_off_def)
  have tn: "truthy_nat (amount_off five_off)"
    by (simp add: truthy_nat_def five_off_def)
  have fi: "items_first (db shop) order5 = Some (1, mug)"
    by (simp add: items_first_def items_all_def shop_def shop_db_def order5_def)
  have h: "truthy_nat (amount_off five_off) \<longrightarrow> items_first (db shop) order5 \<noteq> None"
    by (simp add: fi)
  from order_coupon_materialized [OF o d dr nt h, of gw_ok shop_url]
  obtain kw rest where
    r: "new_calls shop (snd (buy_order_view gw_ok shop_url 5 shop))
       = (Coupon_create kw, gw_ok (log shop) (Coupon_create kw)) # rest"
    and nc: "filter is_coupon_call rest = []"
    and am: "truthy_nat (amount_off five_off) \<longrightarrow>
        (\<exists>n i first. amount_off five_off = Some n \<and> n \<noteq> 0 \<and>
           items_first (db shop) order5 = Some (i, first) \<and>
           kw = [(''duration'', PStr ''once''), (''amount_off'', PInt (int n)),
                 (''currency'', PStr (currency first))])"
    and ps: "\<forall>cid. gw_ok (log shop) (Coupon_create kw) = Inr cid \<longrightarrow>
        discount_rows (db (snd (buy_order_view gw_ok shop_url 5 shop))) 2
          = Some (five_off\<lparr>stripe_coupon_id := Some cid\<rparr>)"
    by (elim exE conjE)
  from mp [OF am tn]
  obtain n i first where n: "amount_off five_off = Some n"
    and f: "items_first (db shop) order5 = Some (i, first)"
    and kw: "kw = [(''duration'', PStr ''once''), (''amount_off'', PInt (int n)),
                 (''currency'', PStr (currency first))]"
    by (elim exE conjE)
  from n have n5: "n = 5" by (simp add: five_off_def)
  from f fi have "first = mug" by simp
  with kw n5 have kw': "kw = [(''duration'', PStr ''once''), (''amount_off'', PInt 5),
                            (''currency'', PStr ''USD'')]"
    by (simp add: mug_def)
  have g: "gw_ok (log shop) (Coupon_create kw) = Inr ''co_1''"
    by (simp add: gw_ok_def)
  from mp [OF spec [OF ps] g]
  have p: "discount_rows (db (snd (buy_order_view gw_ok shop_url 5 shop))) 2
     = Some (five_off\<lparr>stripe_coupon_id := Some ''co_1''\<rparr>)" .
  have cs: "(case new_calls shop (snd (buy_order_view gw_ok shop_url 5 shop)) of
      [] \<Rightarrow> False
    | x # rest \<Rightarrow>
        x = (Coupon_create [(''duration'', PStr ''once''), (''amount_off'', PInt 5),
                            (''currency'', PStr ''USD'')], Inr ''co_1'') \<and>
        filter is_coupon_call rest = [])"
    unfolding r list.case g using kw' nc by simp
  from o d dr nt tn fi cs p show ?thesis by (intro conjI)
qed

text \<open>
  Claim C1. For every order checkout where the order has a discount whose remote coupon id
  is unset, one remote coupon is created, amount-based with the currency of the order's
  first item if \<open>amount_off\<close> is set and percent-based otherwise, and the returned id is
  stored on the Discount. The view does not do this for an order without items whose
  discount has \<open>amount_off = 5\<close> and no coupon id: \<open>order.items.first()\<close> is \<open>None\<close>,
  reading its currency raises \<open>AttributeError\<close>, no coupon-creation call is made and the
  Discount row keeps its empty id. On the same kind of order the percent branch creates the
  coupon and stores its id.
\<close>

theorem empty_order_amount_discount_creates_no_coupon:
  "order_rows (db shop) 3 = Some order3 \<and> items_all (db shop) order3 = [] \<and>
   discount_id order3 = Some 2 \<and> discount_rows (db shop) 2 = Some five_off \<and>
   amount_off five_off = Some 5 \<and> stripe_coupon_id five_off = None \<and>
   buy_order_view gw_ok shop_url 3 shop = (Inl AttributeError, shop) \<and>
   filter is_coupon_call (new_calls shop (snd (buy_order_view gw_ok shop_url 3 shop))) = [] \<and>
   discount_rows (db (snd (buy_order_view gw_ok shop_url 3 shop))) 2 = Some five_off \<and>
   order_rows (db shop) 6 = Some order6 \<and> items_all (db shop) order6 = [] \<and>
   discount_id order6 = Some 1 \<and> discount_rows (db shop) 1 = Some ten_percent \<and>
   stripe_coupon_id ten_percent = None \<and>
   filter is_coupon_call (new_calls shop (snd (buy_order_view gw_ok shop_url 6 shop)))
     = [(Coupon_create [(''duration'', PStr ''once''), (''percent_off'', PInt 10)],
         Inr ''co_1'')] \<and>
   discount_rows (db (snd (buy_order_view gw_ok shop_url 6 shop))) 1
     = Some (ten_percent\<lparr>stripe_coupon_id := Some ''co_1''\<rparr>)"
proof -
  have run: "buy_order_view gw_ok shop_url 3 shop = (Inl AttributeError, shop)"
    by (simp add: view_defs shop_defs gw_ok_def)
  have a: "order_rows (db shop) 3 = Some order3" "items_all (db shop) order3 = []"
    "discount_id order3 = Some 2" "discount_rows (db shop) 2 = Some five_off"
    "amount_off five_off = Some 5" "stripe_coupon_id five_off = None"
    by (simp_all add: shop_def shop_db_def order3_def five_off_def items_all_def)
  have b: "filter is_coupon_call
      (new_calls shop (snd (buy_order_view gw_ok shop_url 3 shop))) = []"
    unfolding run by (simp add: new_calls_def)
  have c: "discount_rows (db (snd (buy_order_view gw_ok shop_url 3 shop))) 2 = Some five_off"
    unfolding run by (simp add: shop_def shop_db_def)
  have d: "order_rows (db shop) 6 = Some order6" "items_all (db shop) order6 = []"
    "discount_id order6 = Some 1" "discount_rows (db shop) 1 = Some ten_percent"
    "stripe_coupon_id ten_percent = None"
    by (simp_all add: shop_def shop_db_def order6_def ten_percent_def items_all_def)
  have e: "filter is_coupon_call (new_calls shop (snd (buy_order_view gw_ok shop_url 6 shop)))
     = [(Coupon_create [(''duration'', PStr ''once''), (''percent_off'', PInt 10)],
         Inr ''co_1'')]"
    by (simp add: view_defs shop_defs gw_ok_def)
  have f: "discount_rows (db (snd (buy_order_view gw_ok shop_url 6 shop))) 1
     = Some (ten_percent\<lparr>stripe_coupon_id := Some ''co_1''\<rparr>)"
    by (simp add: view_defs shop_defs gw_ok_def)
  from a run b c d e f show ?thesis by (intro conjI)
qed

text \<open>
  Claim C2, amended. A remote id that is set (a non-empty \<open>stripe_coupon_id\<close> or
  \<open>stripe_tax_rate_id\<close>) is never changed by a checkout, of an item or of any order, and
  the checkout of an order whose discount has its remote coupon id set makes no
  coupon-creation call; likewise for its tax and tax-rate creation. Two checkouts in
  sequence of orders that use the same Discount make at most one coupon-creation call
  between them, provided every coupon-creation call of the first checkout returns a
  non-empty id; the same holds for orders that use the same Tax and tax-rate creation.

  Without the proviso the bound fails, since the view stores only the id of a call that
  returned and tests the stored id by its truth value: when the first coupon creation raises,
  or returns an empty id, the second checkout calls again (the theorem named counterexample
  below).
\<close>

theorem remote_ids_set_once:
  "(\<forall>k d. discount_rows (db w) k = Some d \<and> truthy_str (stripe_coupon_id d) \<longrightarrow>
       discount_rows (db (snd (buy_order_view gw u1 o1 w))) k = Some d \<and>
       discount_rows (db (snd (buy_view gw ub ib w))) k = Some d) \<and>
   (\<forall>k t. tax_rows (db w) k = Some t \<and> truthy_str (stripe_tax_rate_id t) \<longrightarrow>
       tax_rows (db (snd (buy_order_view gw u1 o1 w))) k = Some t \<and>
       tax_rows (db (snd (buy_view gw ub ib w))) k = Some t) \<and>
   (\<forall>order k d. order_rows (db w) o1 = Some order \<and> discount_id order = Some k \<and>
       discount_rows (db w) k = Some d \<and> truthy_str (stripe_coupon_id d) \<longrightarrow>
       filter is_coupon_call (new_calls w (snd (buy_order_view gw u1 o1 w))) = []) \<and>
   (\<forall>order k t. order_rows (db w) o1 = Some order \<and> tax_id order = Some k \<and>
       tax_rows (db w) k = Some t \<and> truthy_str (stripe_tax_rate_id t) \<longrightarrow>
       filter is_tax_call (new_calls w (snd (buy_order_view gw u1 o1 w))) = []) \<and>
   (\<forall>ord1 ord2 k. order_rows (db w) o1 = Some ord1 \<and> order_rows (db w) o2 = Some ord2 \<and>
       discount_id ord1 = Some k \<and> discount_id ord2 = Some k \<and>
       (\<forall>kw r. (Coupon_create kw, r) \<in> set (new_calls w (snd (buy_order_view gw u1 o1 w)))
                 \<longrightarrow> (\<exists>cid. r = Inr cid \<and> cid \<noteq> [])) \<longrightarrow>
       length (filter is_coupon_call
         (new_calls w (snd (buy_order_view gw u2 o2 (snd (buy_order_view gw u1 o1 w))))))
         \<le> 1) \<and>
   (\<forall>ord1 ord2 k. order_rows (db w) o1 = Some ord1 \<and> order_rows (db w) o2 = Some ord2 \<and>
       tax_id ord1 = Some k \<and> tax_id ord2 = Some k \<and>
       (\<forall>kw r. (TaxRate_create kw, r) \<in> set (new_calls w (snd (buy_order_view gw u1 o1 w)))
                 \<longrightarrow> (\<exists>tid. r = Inr tid \<and> tid \<noteq> [])) \<longrightarrow>
       length (filter is_tax_call
         (new_calls w (snd (buy_order_view gw u2 o2 (snd (buy_order_view gw u1 o1 w))))))
         \<le> 1)"
proof (intro conjI allI impI; (elim conjE)?)
  fix k d
  assume a: "discount_rows (db w) k = Some d" "truthy_str (stripe_coupon_id d)"
  from run_set_once [of w gw u1 o1, THEN conjunct1] a
  show "discount_rows (db (snd (buy_order_view gw u1 o1 w))) k = Some d" by blast
  from a show "discount_rows (db (snd (buy_view gw ub ib w))) k = Some d"
    by (simp add: buy_view_db)
next
  fix k t
  assume a: "tax_rows (db w) k = Some t" "truthy_str (stripe_tax_rate_id t)"
  from run_set_once [of w gw u1 o1, THEN conjunct2] a
  show "tax_rows (db (snd (buy_order_view gw u1 o1 w))) k = Some t" by blast
  from a show "tax_rows (db (snd (buy_view gw ub ib w))) k = Some t"
    by (simp add: buy_view_db)
next
  fix order k d
  assume "order_rows (db w) o1 = Some order" "discount_id order = Some k"
    "discount_rows (db w) k = Some d" "truthy_str (stripe_coupon_id d)"
  then show "filter is_coupon_call (new_calls w (snd (buy_order_view gw u1 o1 w))) = []"
    by (rule run_materialized_no_coupon)
next
  fix order k t
  assume "order_rows (db w) o1 = Some order" "tax_id order = Some k"
    "tax_rows (db w) k = Some t" "truthy_str (stripe_tax_rate_id t)"
  then show "filter is_tax_call (new_calls w (snd (buy_order_view gw u1 o1 w))) = []"
    by (rule run_materialized_no_tax)
next
  fix ord1 ord2 k
  assume "order_rows (db w) o1 = Some ord1" "order_rows (db w) o2 = Some ord2"
    "discount_id ord1 = Some k" "discount_id ord2 = Some k"
    "\<forall>kw r. (Coupon_create kw, r) \<in> set (new_calls w (snd (buy_order_view gw u1 o1 w)))
                 \<longrightarrow> (\<exists>cid. r = Inr cid \<and> cid \<noteq> [])"
  then show "length (filter is_coupon_call
         (new_calls w (snd (buy_order_view gw u2 o2 (snd (buy_order_view gw u1 o1 w))))))
         \<le> 1"
    by (rule two_checkouts_one_coupon_call)
next
  fix ord1 ord2 k
  assume "order_rows (db w) o1 = Some ord1" "order_rows (db w) o2 = Some ord2"
    "tax_id ord1 = Some k" "tax_id ord2 = Some k"
    "\<forall>kw r. (TaxRate_create kw, r) \<in> set (new_calls w (snd (buy_order_view gw u1 o1 w)))
                 \<longrightarrow> (\<exists>tid. r = Inr tid \<and> tid \<noteq> [])"
  then show "length (filter is_tax_call
         (new_calls w (snd (buy_order_view gw u2 o2 (snd (buy_order_view gw u1 o1 w))))))
         \<le> 1"
    by (rule two_checkouts_one_tax_rate_call)
qed


theorem remote_ids_set_once_witness:
  "order_rows (db shop) 1 = Some order1 \<and> order_rows (db shop) 2 = Some order2 \<and>
   discount_id order1 = Some 1 \<and> discount_id order2 = Some 1 \<and>
   tax_id order1 = Some 1 \<and> tax_id order2 = Some 1 \<and>
   filter is_coupon_call (new_calls shop (snd (buy_order_view gw_ok shop_url 1 shop)))
     = [(Coupon_create [(''duration'', PStr ''once''), (''percent_off'', PInt 10)],
         Inr ''co_1'')] \<and>
   filter is_tax_call (new_calls shop (snd (buy_order_view gw_ok shop_url 1 shop)))
     = [(TaxRate_create [(''display_name'', PStr ''VAT''), (''percentage'', PInt 20),
                         (''inclusive'', PBool False)], Inr ''txr_1'')] \<and>
   length (filter is_coupon_call
     (new_calls shop
        (snd (buy_order_view gw_ok shop_url 2 (snd (buy_order_view gw_ok shop_url 1 shop))))))
     \<le> 1 \<and>
   length (filter is_tax_call
     (new_calls shop
        (snd (buy_order_view gw_ok shop_url 2 (snd (buy_order_view gw_ok shop_url 1 shop))))))
     \<le> 1 \<and>
   order_rows (db shop) 4 = Some order4 \<and>
   discount_id order4 = Some 3 \<and> discount_rows (db shop) 3 = Some promo \<and>
   truthy_str (stripe_coupon_id promo) \<and>
   filter is_coupon_call (new_calls shop (snd (buy_order_view gw_ok shop_url 4 shop))) = [] \<and>
   discount_rows (db (snd (buy_order_view gw_ok shop_url 4 shop))) 3 = Some promo \<and>
   tax_id order4 = Some 2 \<and> tax_rows (db shop) 2 = Some gst \<and>
   truthy_str (stripe_tax_rate_id gst) \<and>
   filter is_tax_call (new_calls shop (snd (buy_order_view gw_ok shop_url 4 shop))) = [] \<and>
   tax_rows (db (snd (buy_order_view gw_ok shop_url 4 shop))) 2 = Some gst"
proof -
  have o1: "order_rows (db shop) 1 = Some order1" and o2: "order_rows (db shop) 2 = Some order2"
    and o4: "order_rows (db shop) 4 = Some order4"
    by (simp_all add: shop_def shop_db_def)
  have d1: "discount_id order1 = Some 1" and d2: "discount_id order2 = Some 1"
    and t1: "tax_id order1 = Some 1" and t2: "tax_id order2 = Some 1"
    and d4: "discount_id order4 = Some 3" and t4: "tax_id order4 = Some 2"
    by (simp_all add: order1_def order2_def order4_def)
  have pr: "discount_rows (db shop) 3 = Some promo" and gr: "tax_rows (db shop) 2 = Some gst"
    by (simp_all add: shop_def shop_db_def)
  have pt: "truthy_str (stripe_coupon_id promo)" and gt: "truthy_str (stripe_tax_rate_id gst)"
    by (simp_all add: truthy_str_def promo_def gst_def)
  have run1: "new_calls shop (snd (buy_order_view gw_ok shop_url 1 shop))
     = [(Coupon_create [(''duration'', PStr ''once''), (''percent_off'', PInt 10)],
         Inr ''co_1''),
        (TaxRate_create [(''display_name'', PStr ''VAT''), (''percentage'', PInt 20),
                         (''inclusive'', PBool False)], Inr ''txr_1''),
        (Session_create
           (session_kwargs
              (line_items_of shop_db order1 (Some (vat\<lparr>stripe_tax_rate_id := Some ''txr_1''\<rparr>)))
              (success_url_of shop_url) (butlast shop_url @ ''/order/'' @ str_nat 1 @ ''/'')),
         Inr ''cs_test_1'')]"
    by (simp add: view_defs shop_defs gw_ok_def)
  have fc: "filter is_coupon_call (new_calls shop (snd (buy_order_view gw_ok shop_url 1 shop)))
     = [(Coupon_create [(''duration'', PStr ''once''), (''percent_off'', PInt 10)],
         Inr ''co_1'')]"
    unfolding run1 by simp
  have ft: "filter is_tax_call (new_calls shop (snd (buy_order_view gw_ok shop_url 1 shop)))
     = [(TaxRate_create [(''display_name'', PStr ''VAT''), (''percentage'', PInt 20),
                         (''inclusive'', PBool False)], Inr ''txr_1'')]"
    unfolding run1 by simp
  have okc: "\<forall>kw r. (Coupon_create kw, r)
                \<in> set (new_calls shop (snd (buy_order_view gw_ok shop_url 1 shop)))
               \<longrightarrow> (\<exists>cid. r = Inr cid \<and> cid \<noteq> [])"
    unfolding run1 by simp
  have okt: "\<forall>kw r. (TaxRate_create kw, r)
                \<in> set (new_calls shop (snd (buy_order_view gw_ok shop_url 1 shop)))
               \<longrightarrow> (\<exists>tid. r = Inr tid \<and> tid \<noteq> [])"
    unfolding run1 by simp
  note two = remote_ids_set_once [where w = shop and gw = gw_ok and ?u1.0 = shop_url
      and ?o1.0 = 1 and ub = shop_url and ib = 1 and ?u2.0 = shop_url and ?o2.0 = 2]
  note two' = two [THEN conjunct2, THEN conjunct2, THEN conjunct2, THEN conjunct2]
  have hc: "order_rows (db shop) 1 = Some order1 \<and> order_rows (db shop) 2 = Some order2 \<and>
      discount_id order1 = Some 1 \<and> discount_id order2 = Some 1 \<and>
      (\<forall>kw r. (Coupon_create kw, r)
                \<in> set (new_calls shop (snd (buy_order_view gw_ok shop_url 1 shop)))
               \<longrightarrow> (\<exists>cid. r = Inr cid \<and> cid \<noteq> []))"
    using o1 o2 d1 d2 okc by (intro conjI)
  from two' [THEN conjunct1, THEN spec, THEN spec, THEN spec, THEN mp, OF hc]
  have c: "length (filter is_coupon_call
     (new_calls shop
        (snd (buy_order_view gw_ok shop_url 2 (snd (buy_order_view gw_ok shop_url 1 shop))))))
     \<le> 1" .
  have ht: "order_rows (db shop) 1 = Some order1 \<and> order_rows (db shop) 2 = Some order2 \<and>
      tax_id order1 = Some 1 \<and> tax_id order2 = Some 1 \<and>
      (\<forall>kw r. (TaxRate_create kw, r)
                \<in> set (new_calls shop (snd (buy_order_view gw_ok shop_url 1 shop)))
               \<longrightarrow> (\<exists>tid. r = Inr tid \<and> tid \<noteq> []))"
    using o1 o2 t1 t2 okt by (intro conjI)
  from two' [THEN conjunct2, THEN spec, THEN spec, THEN spec, THEN mp, OF ht]
  have t: "length (filter is_tax_call
     (new_calls shop
        (snd (buy_order_view gw_ok shop_url 2 (snd (buy_order_view gw_ok shop_url 1 shop))))))
     \<le> 1" .
  note four = remote_ids_set_once [where w = shop and gw = gw_ok and ?u1.0 = shop_url
      and ?o1.0 = 4 and ub = shop_url and ib = 1 and ?u2.0 = shop_url and ?o2.0 = 2]
  have hd: "discount_rows (db shop) 3 = Some promo \<and> truthy_str (stripe_coupon_id promo)"
    using pr pt by (intro conjI)
  from four [THEN conjunct1, THEN spec, THEN spec, THEN mp, OF hd, THEN conjunct1]
  have keep_d: "discount_rows (db (snd (buy_order_view gw_ok shop_url 4 shop))) 3 = Some promo" .
  have hg: "tax_rows (db shop) 2 = Some gst \<and> truthy_str (stripe_tax_rate_id gst)"
    using gr gt by (intro conjI)
  from four [THEN conjunct2, THEN conjunct1, THEN spec, THEN spec, THEN mp, OF hg, THEN conjunct1]
  have keep_t: "tax_rows (db (snd (buy_order_view gw_ok shop_url 4 shop))) 2 = Some gst" .
  have hnc: "order_rows (db shop) 4 = Some order4 \<and> discount_id order4 = Some 3 \<and>
      discount_rows (db shop) 3 = Some promo \<and> truthy_str (stripe_coupon_id promo)"
    using o4 d4 pr pt by (intro conjI)
  from four [THEN conjunct2, THEN conjunct2, THEN conjunct1,
             THEN spec, THEN spec, THEN spec, THEN mp, OF hnc]
  have no_c: "filter is_coupon_call
      (new_calls shop (snd (buy_order_view gw_ok shop_url 4 shop))) = []" .
  have hnt: "order_rows (db shop) 4 = Some order4 \<and> tax_id order4 = Some 2 \<and>
      tax_rows (db shop) 2 = Some gst \<and> truthy_str (stripe_tax_rate_id gst)"
    using o4 t4 gr gt by (intro conjI)
  from four [THEN conjunct2, THEN conjunct2, THEN conjunct2, THEN conjunct1,
             THEN spec, THEN spec, THEN spec, THEN mp, OF hnt]
  have no_t: "filter is_tax_call
      (new_calls shop (snd (buy_order_view gw_ok shop_url 4 shop))) = []" .
  from o1 o2 d1 d2 t1 t2 fc ft c t o4 d4 pr pt no_c keep_d t4 gr gt no_t keep_t
  show ?thesis by (intro conjI)
qed

theorem two_checkouts_two_coupon_calls_counterexample:
  "order_rows (db shop) 1 = Some order1 \<and> order_rows (db shop) 2 = Some order2 \<and>
   discount_id order1 = Some 1 \<and> discount_id order2 = Some 1 \<and>
   filter is_coupon_call
     (new_calls shop
        (snd (buy_order_view gw_coupon_retry shop_url 2
                (snd (buy_order_view gw_coupon_retry shop_url 1 shop)))))
     = [(Coupon_create [(''duration'', PStr ''once''), (''percent_off'', PInt 10)],
         Inl ''connection reset''),
        (Coupon_create [(''duration'', PStr ''once''), (''percent_off'', PInt 10)],
         Inr ''co_1'')] \<and>
   filter is_coupon_call
     (new_calls shop
        (snd (buy_order_view gw_empty_coupon_id shop_url 2
                (snd (buy_order_view gw_empty_coupon_id shop_url 1 shop)))))
     = [(Coupon_create [(''duration'', PStr ''once''), (''percent_off'', PInt 10)], Inr []),
        (Coupon_create [(''duration'', PStr ''once''), (''percent_off'', PInt 10)], Inr [])]"
proof -
  have o: "order_rows (db shop) 1 = Some order1" "order_rows (db shop) 2 = Some order2"
    by (simp_all add: shop_def shop_db_def)
  have d: "discount_id order1 = Some 1" "discount_id order2 = Some 1"
    by (simp_all add: order1_def order2_def)
  have a: "filter is_coupon_call
     (new_calls shop
        (snd (buy_order_view gw_coupon_retry shop_url 2
                (snd (buy_order_view gw_coupon_retry shop_url 1 shop)))))
     = [(Coupon_create [(''duration'', PStr ''once''), (''percent_off'', PInt 10)],
         Inl ''connection reset''),
        (Coupon_create [(''duration'', PStr ''once''), (''percent_off'', PInt 10)],
         Inr ''co_1'')]"
    by (simp add: view_defs shop_defs gw_coupon_retry_def)
  have b: "filter is_coupon_call
     (new_calls shop
        (snd (buy_order_view gw_empty_coupon_id shop_url 2
                (snd (buy_order_view gw_empty_coupon_id shop_url 1 shop)))))
     = [(Coupon_create [(''duration'', PStr ''once''), (''percent_off'', PInt 10)], Inr []),
        (Coupon_create [(''duration'', PStr ''once''), (''percent_off'', PInt 10)], Inr [])]"
    by (simp add: view_defs shop_defs gw_empty_coupon_id_def)
  from o d a b show ?thesis by (intro conjI)
qed

end
